theory Spec2Isabelle
  imports Main "HOL-Library.AList"
begin

section \<open>Outcomes of JavaScript code\<close>

text \<open>
  A call returns a value, throws, or does not return. \<open>Beyond\<close> marks the inputs on which
  the code reads or writes built-in objects of the engine (properties inherited from
  \<open>Object.prototype\<close>, methods of strings, an unusual regular expression): the embedding
  stops there and says nothing about the result.

  \<open>TypeError\<close> is the engine's own error; \<open>IOError msg\<close> is an error of the file system
  with its message.
\<close>

datatype js_error = TypeError | IOError string

datatype 'a outcome = Returns 'a | Throws js_error | Diverges | Beyond

fun and_then :: "'a outcome \<Rightarrow> ('a \<Rightarrow> 'b outcome) \<Rightarrow> 'b outcome" where
  "and_then (Returns x) f = f x"
| "and_then (Throws e) f = Throws e"
| "and_then Diverges f = Diverges"
| "and_then Beyond f = Beyond"

lemma and_then_cong [fundef_cong]:
  "x = y \<Longrightarrow> (\<And>v. y = Returns v \<Longrightarrow> f v = g v) \<Longrightarrow> and_then x f = and_then y g"
  by (cases y) simp_all

text \<open>\<open>try { body } catch (error) { handler }\<close>\<close>

fun try_catch :: "'a outcome \<Rightarrow> (js_error \<Rightarrow> 'a outcome) \<Rightarrow> 'a outcome" where
  "try_catch (Throws e) handler = handler e"
| "try_catch r handler = r"

text \<open>The values that the extractors put into their arrays: a string, or \<open>undefined\<close>
  for a group that took no part in the match.\<close>

datatype jsval = Str string | Undefined

fun truthy :: "jsval \<Rightarrow> bool" where
  "truthy (Str s) = (s \<noteq> [])"
| "truthy Undefined = False"

text \<open>\<open>error.message\<close>. The text that the engine gives a \<open>TypeError\<close> is not modelled;
  a fixed string stands for it.\<close>

fun message :: "js_error \<Rightarrow> string" where
  "message (IOError msg) = msg"
| "message TypeError = ''TypeError''"

section \<open>Strings\<close>

text \<open>
  A string is a list of characters (code units below 256). \<open>is_space\<close> is the white space
  of \<open>\s\<close> and of \<open>trim\<close> in that range, \<open>is_word\<close> is \<open>\w\<close>, \<open>line_terminator\<close> the
  characters that \<open>.\<close> does not match and after which \<open>^\<close> matches in multiline mode.
\<close>

definition is_space :: "char \<Rightarrow> bool" where
  "is_space c = (of_char c \<in> {9::nat, 10, 11, 12, 13, 32, 160})"

definition is_word :: "char \<Rightarrow> bool" where
  "is_word c =
     (let n = of_char c :: nat
      in (48 \<le> n \<and> n \<le> 57) \<or> (65 \<le> n \<and> n \<le> 90) \<or> n = 95 \<or> (97 \<le> n \<and> n \<le> 122))"

definition line_terminator :: "char \<Rightarrow> bool" where
  "line_terminator c = (of_char c \<in> {10::nat, 13})"

text \<open>\<open>s.split(c)\<close> for a one-character separator: never empty, \<open>''''.split(c)\<close> is \<open>[[]]\<close>.\<close>

fun split_sep :: "char \<Rightarrow> string \<Rightarrow> string list" where
  "split_sep c [] = [[]]"
| "split_sep c (x # xs) =
     (let ps = split_sep c xs in if x = c then [] # ps else (x # hd ps) # tl ps)"

definition trim :: "string \<Rightarrow> string" where
  "trim s = rev (dropWhile is_space (rev (dropWhile is_space s)))"

fun starts_with :: "string \<Rightarrow> string \<Rightarrow> bool" where
  "starts_with s [] = True"
| "starts_with [] (y # ys) = False"
| "starts_with (x # xs) (y # ys) = (x = y \<and> starts_with xs ys)"

text \<open>\<open>s.includes(sub)\<close>\<close>

fun includes_str :: "string \<Rightarrow> string \<Rightarrow> bool" where
  "includes_str [] sub = (sub = [])"
| "includes_str (x # xs) sub = (starts_with (x # xs) sub \<or> includes_str xs sub)"

text \<open>
  \<open>path.extname\<close> of Node (POSIX): the extension of the last segment, trailing slashes
  ignored, from its last dot on; empty when the segment has no dot, when the dot is its
  first character, or when the segment is \<open>..\<close>.
\<close>

definition basename_part :: "string \<Rightarrow> string" where
  "basename_part p =
     rev (takeWhile (\<lambda>c. c \<noteq> CHR ''/'') (dropWhile (\<lambda>c. c = CHR ''/'') (rev p)))"

definition extname :: "string \<Rightarrow> string" where
  "extname p =
     (let base = basename_part p;
          ext = rev (takeWhile (\<lambda>c. c \<noteq> CHR ''.'') (rev base));
          pre = take (length base - length ext - 1) base
      in if CHR ''.'' \<notin> set base then []
         else if pre = [] then []
         else if pre = ''.'' \<and> ext = [] then []
         else CHR ''.'' # ext)"

section \<open>The rebuild scheduler (watcher, \<open>src/unnamed/part_002\<close>)\<close>

subsection \<open>Configuration\<close>

text \<open>
  The \<open>debounceMs\<close> option is a JavaScript number: the command line produces it with
  \<open>parseInt\<close>, which yields an integer or \<open>NaN\<close>. An option that is not given is
  \<open>undefined\<close>, modelled as \<open>None\<close>.
\<close>

datatype jsnum = Num int | NaN

fun truthy_num :: "jsnum \<Rightarrow> bool" where
  "truthy_num (Num n) = (n \<noteq> 0)"
| "truthy_num NaN = False"

definition truthy_opt :: "jsnum option \<Rightarrow> bool" where
  "truthy_opt v = (case v of None \<Rightarrow> False | Some x \<Rightarrow> truthy_num x)"

record watcher_options =
  opt_debounceMs :: "jsnum option"

text \<open>
  The fields of \<open>ProjectWatcher\<close> that the scheduler reads and writes. \<open>rebuildTimer\<close> holds
  the handle returned by \<open>setTimeout\<close> (\<open>None\<close> is \<open>null\<close>); it is never reset once the
  timer has fired, so it may name a timer that is no longer armed.
\<close>

record watcher =
  debounceMs :: jsnum
  rebuildTimer :: "nat option"
  isRebuilding :: bool

text \<open>\<open>this.debounceMs = options.debounceMs || 1000\<close>, the rest of the constructor's
  assignments that concern the scheduler.\<close>

definition new_watcher :: "watcher_options \<Rightarrow> watcher" where
  "new_watcher options =
     \<lparr> debounceMs = (case opt_debounceMs options of
                        Some x \<Rightarrow> if truthy_num x then x else Num 1000
                      | None \<Rightarrow> Num 1000),
       rebuildTimer = None,
       isRebuilding = False \<rparr>"

subsection \<open>Timers of the runtime\<close>

text \<open>
  The runtime executes one callback at a time. It keeps the armed timers as pairs of a
  handle and a deadline on a clock counted in milliseconds, and \<open>clock\<close> is the time at
  which the last callback returned: the event loop has been free since then, and a
  callback that becomes ready earlier has to wait until then. \<open>rebuilds\<close> logs the time at
  which every call of \<open>this.indexer.generateIndex()\<close> starts, latest first.
\<close>

record runtime =
  timers :: "(nat \<times> nat) list"
  fresh :: nat
  rebuilds :: "nat list"
  clock :: nat

text \<open>Node's \<open>setTimeout\<close> replaces a delay that is not in \<open>[1, 2^31 - 1]\<close> by 1.\<close>

fun timer_delay :: "jsnum \<Rightarrow> nat" where
  "timer_delay (Num n) = (if 1 \<le> n \<and> n \<le> 2147483647 then nat n else 1)"
| "timer_delay NaN = 1"

definition clearTimeout :: "nat \<Rightarrow> runtime \<Rightarrow> runtime" where
  "clearTimeout h rt = rt\<lparr> timers := filter (\<lambda>(h', dl). h' \<noteq> h) (timers rt) \<rparr>"

definition setTimeout :: "nat \<Rightarrow> nat \<Rightarrow> runtime \<Rightarrow> nat \<times> runtime"  where
  "setTimeout now delay rt =
     (fresh rt, rt\<lparr> timers := timers rt @ [(fresh rt, now + delay)], fresh := Suc (fresh rt) \<rparr>)"

subsection \<open>\<open>scheduleRebuild\<close> and \<open>generateIndex\<close>\<close>

definition scheduleRebuild :: "nat \<Rightarrow> watcher \<times> runtime \<Rightarrow> watcher \<times> runtime" where
  "scheduleRebuild now s =
     (case s of (w, rt) \<Rightarrow>
        if isRebuilding w then (w, rt)
        else
          let rt1 = (case rebuildTimer w of Some h \<Rightarrow> clearTimeout h rt | None \<Rightarrow> rt);
              (h', rt2) = setTimeout now (timer_delay (debounceMs w)) rt1
          in (w\<lparr> rebuildTimer := Some h' \<rparr>, rt2))"

text \<open>
  \<open>generateIndex\<close> of the watcher, called at the time \<open>now\<close>. The call of the indexer is one
  synchronous call: the event loop runs no other callback until it has returned, which is
  \<open>duration now\<close> milliseconds later (the source's \<open>duration = Date.now() - startTime\<close>). An
  exception of the indexer is caught and the \<open>finally\<close> block resets the flag either way,
  so both outcomes leave the same state.
\<close>

definition generateIndex_watcher ::
  "(nat \<Rightarrow> nat) \<Rightarrow> nat \<Rightarrow> watcher \<times> runtime \<Rightarrow> watcher \<times> runtime" where
  "generateIndex_watcher duration now s =
     (case s of (w, rt) \<Rightarrow>
        if isRebuilding w then (w, rt)
        else
          let w1 = w\<lparr> isRebuilding := True \<rparr>;
              rt1 = rt\<lparr> rebuilds := now # rebuilds rt, clock := now + duration now \<rparr>
          in (w1\<lparr> isRebuilding := False \<rparr>, rt1))"

subsection \<open>The event loop\<close>

text \<open>
  A timer whose deadline has come fires before a notification that arrives later: it is
  disarmed and its callback, \<open>() => this.generateIndex()\<close>, runs at the deadline, or when
  the event loop becomes free if that is later.
\<close>

definition fire ::
  "(nat \<Rightarrow> nat) \<Rightarrow> nat \<times> nat \<Rightarrow> watcher \<times> runtime \<Rightarrow> watcher \<times> runtime" where
  "fire duration tm s =
     (case s of (w, rt) \<Rightarrow>
        if tm \<in> set (timers rt)
        then generateIndex_watcher duration (max (snd tm) (clock rt)) (w, clearTimeout (fst tm) rt)
        else (w, rt))"

definition fire_due :: "(nat \<Rightarrow> nat) \<Rightarrow> nat \<Rightarrow> watcher \<times> runtime \<Rightarrow> watcher \<times> runtime" where
  "fire_due duration now s =
     fold (fire duration) (sort_key snd (filter (\<lambda>(h, dl). dl \<le> now) (timers (snd s)))) s"

definition fire_all :: "(nat \<Rightarrow> nat) \<Rightarrow> watcher \<times> runtime \<Rightarrow> watcher \<times> runtime" where
  "fire_all duration s = fold (fire duration) (sort_key snd (timers (snd s))) s"

text \<open>
  One change notification (\<open>add\<close>, \<open>change\<close>, \<open>unlink\<close>, \<open>addDir\<close>, \<open>unlinkDir\<close>: every
  handler calls \<open>scheduleRebuild\<close>) that arrives at the time \<open>t\<close>. Its handler runs at \<open>t\<close>,
  or when the event loop becomes free if a build is still running at \<open>t\<close>.
\<close>

definition deliver :: "(nat \<Rightarrow> nat) \<Rightarrow> nat \<Rightarrow> watcher \<times> runtime \<Rightarrow> watcher \<times> runtime" where
  "deliver duration t s =
     (let s1 = fire_due duration t s;
          now = max t (clock (snd s1));
          (w, rt) = scheduleRebuild now s1
      in (w, rt\<lparr> clock := now \<rparr>))"

text \<open>The notifications that arrive at the times \<open>ts\<close>, then a quiet period in which every
  armed timer fires.\<close>

definition run_events ::
  "(nat \<Rightarrow> nat) \<Rightarrow> nat list \<Rightarrow> watcher \<times> runtime \<Rightarrow> watcher \<times> runtime" where
  "run_events duration ts s = fire_all duration (fold (deliver duration) ts s)"

definition idle_runtime :: runtime where
  "idle_runtime = \<lparr> timers = [], fresh = 0, rebuilds = [], clock = 0 \<rparr>"

subsection \<open>Bursts and spaced notifications\<close>

text \<open>
  \<open>burst d ts\<close>: each notification arrives less than \<open>d\<close> after the previous one.
  \<open>sparse d ts\<close>: each arrives more than \<open>d\<close> after the previous one.
  \<open>builds_done duration d ts\<close>: the build that starts \<open>d\<close> after a notification has
  returned when the next notification arrives.
  \<open>armed t d s\<close> is the state in which a handler has run at \<open>t\<close> and the only armed timer is
  a new one, due at \<open>t + d\<close>.
\<close>

definition burst :: "nat \<Rightarrow> nat list \<Rightarrow> bool" where
  "burst d ts = successively (\<lambda>a b. a \<le> b \<and> b < a + d) ts"

definition sparse :: "nat \<Rightarrow> nat list \<Rightarrow> bool" where
  "sparse d ts = successively (\<lambda>a b. a + d < b) ts"

definition builds_done :: "(nat \<Rightarrow> nat) \<Rightarrow> nat \<Rightarrow> nat list \<Rightarrow> bool" where
  "builds_done duration d ts = successively (\<lambda>a b. a + d + duration (a + d) \<le> b) ts"

definition armed :: "nat \<Rightarrow> nat \<Rightarrow> watcher \<times> runtime \<Rightarrow> watcher \<times> runtime" where
  "armed t d s = (case s of (w, rt) \<Rightarrow>
     (w\<lparr> rebuildTimer := Some (fresh rt) \<rparr>,
      rt\<lparr> timers := [(fresh rt, t + d)], fresh := Suc (fresh rt), clock := t \<rparr>))"

section \<open>Regular expressions\<close>

text \<open>
  The part of JavaScript's regular expressions that the source uses: characters, \<open>.\<close>,
  character classes (\<open>Set True items\<close> is \<open>[items]\<close>, \<open>Set False items\<close> is \<open>[^items]\<close>),
  sequence, alternation, greedy and lazy repetition, capturing groups and the
  assertions \<open>^\<close> and \<open>$\<close> of multiline mode. A group that is not capturing is
  its body.
\<close>

datatype citem = Ch char | Rng char char | Space | NonSpace | Word

fun citem_has :: "citem \<Rightarrow> char \<Rightarrow> bool" where
  "citem_has (Ch c) x = (x = c)"
| "citem_has (Rng a b) x = ((of_char a :: nat) \<le> of_char x \<and> (of_char x :: nat) \<le> of_char b)"
| "citem_has Space x = is_space x"
| "citem_has NonSpace x = (\<not> is_space x)"
| "citem_has Word x = is_word x"

datatype re =
    Lit char
  | Dot
  | Set bool "citem list"
  | Eps
  | Seq re re
  | Alt re re
  | Star re
  | LazyStar re
  | Group nat re
  | Bol
  | Eol

text \<open>
  The state of a match attempt: the character before the current position, the text
  from the current position on, and the groups captured so far (latest first).
\<close>

record mstate =
  prev :: "char option"
  rest :: string
  caps :: "(nat \<times> string) list"

definition step_if :: "(char \<Rightarrow> bool) \<Rightarrow> mstate \<Rightarrow> mstate list" where
  "step_if P st =
     (case rest st of
        [] \<Rightarrow> []
      | x # xs \<Rightarrow> if P x then [st\<lparr> prev := Some x, rest := xs \<rparr>] else [])"

text \<open>
  \<open>m r st\<close> lists the states in which a match of \<open>r\<close> from \<open>st\<close> can end, in the order in
  which a backtracking matcher tries them: the left alternative first, the longest
  repetition first (the shortest first when lazy). As in JavaScript, a repetition does
  not go on after an iteration that consumed nothing.
\<close>

function (sequential) m :: "re \<Rightarrow> mstate \<Rightarrow> mstate list" where
  "m (Lit c) st = step_if (\<lambda>x. x = c) st"
| "m Dot st = step_if (\<lambda>x. \<not> line_terminator x) st"
| "m (Set pos items) st = step_if (\<lambda>x. pos = (\<exists>i \<in> set items. citem_has i x)) st"
| "m Eps st = [st]"
| "m (Seq a b) st = concat (map (m b) (m a st))"
| "m (Alt a b) st = m a st @ m b st"
| "m (Star r) st =
     concat (map (\<lambda>st'. if length (rest st') < length (rest st) then m (Star r) st' else [])
                 (m r st)) @ [st]"
| "m (LazyStar r) st =
     st # concat (map (\<lambda>st'. if length (rest st') < length (rest st)
                               then m (LazyStar r) st' else [])
                      (m r st))"
| "m (Group n r) st =
     map (\<lambda>st'. st'\<lparr> caps := (n, take (length (rest st) - length (rest st')) (rest st))
                                # caps st' \<rparr>)
         (m r st)"
| "m Bol st =
     (case prev st of None \<Rightarrow> [st] | Some c \<Rightarrow> if line_terminator c then [st] else [])"
| "m Eol st =
     (case rest st of [] \<Rightarrow> [st] | c # cs \<Rightarrow> if line_terminator c then [st] else [])"
  by pat_completeness auto
termination
  by (relation "inv_image (less_than <*lex*> less_than) (\<lambda>(r, st). (size r, length (rest st)))")
     auto

fun str :: "string \<Rightarrow> re" where
  "str [] = Eps"
| "str (c # cs) = Seq (Lit c) (str cs)"

fun seqs :: "re list \<Rightarrow> re" where
  "seqs [] = Eps"
| "seqs (r # rs) = Seq r (seqs rs)"

fun alts :: "re list \<Rightarrow> re" where
  "alts [] = Set True []"
| "alts [r] = r"
| "alts (r # rs) = Alt r (alts rs)"

definition Plus :: "re \<Rightarrow> re" where
  "Plus r = Seq r (Star r)"

definition Opt :: "re \<Rightarrow> re" where
  "Opt r = Alt r Eps"

text \<open>The result of \<open>exec\<close>: \<open>match[0]\<close> and the groups that took part.\<close>

record rmatch =
  whole :: string
  groups :: "(nat \<times> string) list"

text \<open>\<open>match[n]\<close>\<close>

definition cap :: "nat \<Rightarrow> rmatch \<Rightarrow> jsval" where
  "cap n mt = (case map_of (groups mt) n of Some t \<Rightarrow> Str t | None \<Rightarrow> Undefined)"

text \<open>The leftmost match at or after the current position, and the state at its end.\<close>

fun search :: "re \<Rightarrow> char option \<Rightarrow> string \<Rightarrow> (rmatch \<times> mstate) option" where
  "search r p s =
     (case m r \<lparr> prev = p, rest = s, caps = [] \<rparr> of
        st # _ \<Rightarrow> Some (\<lparr> whole = take (length s - length (rest st)) s, groups = caps st \<rparr>, st)
      | [] \<Rightarrow> (case s of [] \<Rightarrow> None | c # cs \<Rightarrow> search r (Some c) cs))"

declare search.simps [simp del]

text \<open>
  \<open>while ((match = regex.exec(content)) !== null) { body }\<close> with a global regular
  expression: every call resumes at \<open>lastIndex\<close>, the end of the previous match, and the
  body runs on each match in turn. An empty match at \<open>lastIndex\<close> leaves \<open>lastIndex\<close>
  where it is, and the loop never ends.
\<close>

function while_exec ::
  "re \<Rightarrow> (rmatch \<Rightarrow> 's \<Rightarrow> 's outcome) \<Rightarrow> char option \<Rightarrow> string \<Rightarrow> 's \<Rightarrow> 's outcome" where
  "while_exec regex body p s acc =
     (case search regex p s of
        None \<Rightarrow> Returns acc
      | Some (mt, st) \<Rightarrow>
          and_then (body mt acc)
            (\<lambda>acc'. if length (rest st) < length s
                    then while_exec regex body (prev st) (rest st) acc'
                    else Diverges))"
  by pat_completeness auto
termination
  by (relation "measure (\<lambda>(regex, body, p, s, acc). length s)") auto

declare while_exec.simps [simp del]

definition scan :: "re \<Rightarrow> string \<Rightarrow> (rmatch \<Rightarrow> 's \<Rightarrow> 's outcome) \<Rightarrow> 's \<Rightarrow> 's outcome" where
  "scan regex content body acc = while_exec regex body None content acc"

text \<open>The matches on which the body of such a loop runs, in order.\<close>

function matches_from :: "re \<Rightarrow> char option \<Rightarrow> string \<Rightarrow> rmatch list" where
  "matches_from regex p s =
     (case search regex p s of
        None \<Rightarrow> []
      | Some (mt, st) \<Rightarrow>
          if length (rest st) < length s
          then mt # matches_from regex (prev st) (rest st)
          else [mt])"
  by pat_completeness auto
termination
  by (relation "measure (\<lambda>(regex, p, s). length s)") auto

declare matches_from.simps [simp del]

definition all_matches :: "re \<Rightarrow> string \<Rightarrow> rmatch list" where
  "all_matches regex content = matches_from regex None content"

text \<open>\<open>regex.test(s)\<close> for a regular expression that is not global.\<close>

definition test :: "re \<Rightarrow> string \<Rightarrow> bool" where
  "test r s = (search r None s \<noteq> None)"

text \<open>An outcome that is a result or an exception.\<close>

fun settles :: "'a outcome \<Rightarrow> bool" where
  "settles (Returns x) = True"
| "settles (Throws e) = True"
| "settles Diverges = False"
| "settles Beyond = False"

text \<open>The shortest text that a regular expression can match is at least this long.\<close>

fun min_len :: "re \<Rightarrow> nat" where
  "min_len (Lit c) = 1"
| "min_len Dot = 1"
| "min_len (Set pos items) = 1"
| "min_len Eps = 0"
| "min_len (Seq a b) = min_len a + min_len b"
| "min_len (Alt a b) = min (min_len a) (min_len b)"
| "min_len (Star r) = 0"
| "min_len (LazyStar r) = 0"
| "min_len (Group n r) = min_len r"
| "min_len Bol = 0"
| "min_len Eol = 0"

text \<open>Groups that take part in every match of a regular expression.\<close>

fun always :: "re \<Rightarrow> nat list" where
  "always (Group n r) = n # always r"
| "always (Seq a b) = always a @ always b"
| "always (Alt a b) = filter (\<lambda>n. n \<in> set (always b)) (always a)"
| "always r = []"

section \<open>The ignore matcher (\<open>shouldIgnoreFile\<close>)\<close>

text \<open>\<open>pattern.replace(/\*\*/g, '.*')\<close>, \<open>s.replace(/\*/g, '[^/]*')\<close> and
  \<open>pattern.replace(/\*/g, '')\<close>.\<close>

fun replace_starstar :: "string \<Rightarrow> string" where
  "replace_starstar (x # y # cs) =
     (if x = CHR ''*'' \<and> y = CHR ''*'' then ''.*'' @ replace_starstar cs
      else x # replace_starstar (y # cs))"
| "replace_starstar cs = cs"

fun replace_star :: "string \<Rightarrow> string" where
  "replace_star [] = []"
| "replace_star (x # cs) =
     (if x = CHR ''*'' then ''[^/]*'' @ replace_star cs else x # replace_star cs)"

definition remove_stars :: "string \<Rightarrow> string" where
  "remove_stars s = filter (\<lambda>c. c \<noteq> CHR ''*'') s"

text \<open>
  \<open>new RegExp(source)\<close> for the sources that the two replacements produce from a pattern
  whose other characters have no special meaning in a regular expression: ordinary
  characters, \<open>.\<close> and \<open>[^/]*\<close>. Any other source is outside the embedding (\<open>None\<close>).
\<close>

definition regex_special :: "char \<Rightarrow> bool" where
  "regex_special c = (c \<in> set (CHR 0x5C # ''^$.*+?()[]{}|''))"

fun new_RegExp :: "string \<Rightarrow> re option" where
  "new_RegExp [] = Some Eps"
| "new_RegExp (c # cs) =
     (if starts_with (c # cs) ''[^/]*''
      then map_option (Seq (Star (Set False [Ch CHR ''/'']))) (new_RegExp (drop 4 cs))
      else if c = CHR ''.'' then map_option (Seq Dot) (new_RegExp cs)
      else if regex_special c then None
      else map_option (Seq (Lit c)) (new_RegExp cs))"

text \<open>The body of the callback given to \<open>some\<close>.\<close>

definition pattern_matches :: "string \<Rightarrow> string \<Rightarrow> bool outcome" where
  "pattern_matches pattern relativePath =
     (if includes_str pattern ''**''
      then (case new_RegExp (replace_star (replace_starstar pattern)) of
              None \<Rightarrow> Beyond
            | Some regex \<Rightarrow> Returns (test regex relativePath))
      else Returns (includes_str relativePath (remove_stars pattern)))"

text \<open>\<open>this.ignorePatterns.some(...)\<close>: the patterns in order, up to the first that matches.\<close>

fun some_pattern :: "string list \<Rightarrow> string \<Rightarrow> bool outcome" where
  "some_pattern [] relativePath = Returns False"
| "some_pattern (pattern # patterns) relativePath =
     and_then (pattern_matches pattern relativePath)
       (\<lambda>hit. if hit then Returns True else some_pattern patterns relativePath)"

text \<open>\<open>shouldIgnoreFile\<close>, given the path relative to the root
  (\<open>path.relative(this.rootDir, filePath)\<close>).\<close>

definition shouldIgnoreFile :: "string list \<Rightarrow> string \<Rightarrow> bool outcome" where
  "shouldIgnoreFile ignorePatterns relativePath = some_pattern ignorePatterns relativePath"

text \<open>
  The matcher in the words of the specification: \<open>**\<close> matches any number of path
  segments, \<open>*\<close> matches any characters except a path separator, any other character
  matches itself, and the pattern is applied to the relative path.
\<close>

datatype glob_token = AnySegments | AnyInSegment | Exactly char

fun glob_tokens :: "string \<Rightarrow> glob_token list" where
  "glob_tokens (x # y # cs) =
     (if x = CHR ''*'' \<and> y = CHR ''*'' then AnySegments # glob_tokens cs
      else if x = CHR ''*'' then AnyInSegment # glob_tokens (y # cs)
      else Exactly x # glob_tokens (y # cs))"
| "glob_tokens [x] = (if x = CHR ''*'' then [AnyInSegment] else [Exactly x])"
| "glob_tokens [] = []"

fun spec_glob :: "glob_token list \<Rightarrow> string \<Rightarrow> bool" where
  "spec_glob [] s = (s = [])"
| "spec_glob (Exactly c # ts) [] = False"
| "spec_glob (Exactly c # ts) (x # xs) = (x = c \<and> spec_glob ts xs)"
| "spec_glob (AnyInSegment # ts) [] = spec_glob ts []"
| "spec_glob (AnyInSegment # ts) (x # xs) =
     (spec_glob ts (x # xs) \<or> (x \<noteq> CHR ''/'' \<and> spec_glob (AnyInSegment # ts) xs))"
| "spec_glob (AnySegments # ts) [] = spec_glob ts []"
| "spec_glob (AnySegments # ts) (x # xs) =
     (spec_glob ts (x # xs) \<or> spec_glob (AnySegments # ts) xs)"

definition spec_ignores :: "string list \<Rightarrow> string \<Rightarrow> bool" where
  "spec_ignores ignorePatterns relativePath =
     (\<exists>pattern \<in> set ignorePatterns. spec_glob (glob_tokens pattern) relativePath)"

section \<open>The language extractors\<close>

subsection \<open>The regular expressions of the source\<close>

definition ws :: re where "ws = Set True [Space]"
definition word :: re where "word = Set True [Word]"
definition but :: "char \<Rightarrow> re" where "but c = Set False [Ch c]"
definition quote :: re where "quote = Set True [Ch (CHR 0x27), Ch (CHR 0x22), Ch (CHR 0x60)]"
definition unquoted :: re where "unquoted = Set False [Ch (CHR 0x27), Ch (CHR 0x22), Ch (CHR 0x60)]"

text \<open>\<open>[A-Z_][A-Z0-9_]*\<close>\<close>

definition upper_name :: re where
  "upper_name =
     Seq (Set True [Rng CHR ''A'' CHR ''Z'', Ch CHR ''_''])
         (Star (Set True [Rng CHR ''A'' CHR ''Z'', Rng CHR ''0'' CHR ''9'', Ch CHR ''_'']))"

text \<open>\<open>kw\s+\<close>, \<open>\([^)]*\)\<close> and \<open>kw\s+(\w+)\<close> with the group numbered \<open>n\<close>.\<close>

definition kw :: "string \<Rightarrow> re" where
  "kw s = Seq (str s) (Plus ws)"

definition parens :: re where
  "parens = seqs [Lit CHR ''('', Star (but CHR '')''), Lit CHR '')'']"

definition named :: "string \<Rightarrow> nat \<Rightarrow> re" where
  "named s n = seqs [str s, Plus ws, Group n (Plus word)]"

text \<open>JavaScript and TypeScript\<close>

definition import_clause :: re where
  "import_clause =
     alts [seqs [Lit CHR ''{'', Star (but CHR ''}''), Lit CHR ''}''],
           seqs [Lit CHR ''*'', Plus ws, str ''as'', Plus ws, Plus word],
           Plus word]"

definition js_importRegex :: re where
  "js_importRegex =
     seqs [str ''import'', Plus ws,
           Opt (seqs [import_clause,
                      Star (seqs [Star ws, Lit CHR '','', Star ws, import_clause]),
                      Plus ws, str ''from'', Plus ws]),
           quote, Group 1 (Plus unquoted), quote]"

definition js_requireRegex :: re where
  "js_requireRegex = seqs [str ''require('', quote, Group 1 (Plus unquoted), quote, Lit CHR '')'']"

definition js_exportRegex :: re where
  "js_exportRegex =
     seqs [str ''export'', Plus ws, Opt (kw ''default''), Opt (kw ''async''),
           alts [named ''function'' 1, named ''class'' 2, named ''const'' 3, named ''let'' 4,
                 named ''var'' 5, named ''interface'' 6, named ''type'' 7]]"

definition js_funcRegex :: re where
  "js_funcRegex =
     seqs [Opt (kw ''export''), Opt (kw ''async''), named ''function'' 1, Star ws, parens]"

definition js_arrowFuncRegex :: re where
  "js_arrowFuncRegex =
     seqs [Opt (kw ''export''), alts [str ''const'', str ''let'', str ''var''], Plus ws,
           Group 1 (Plus word), Star ws, Lit CHR ''='', Star ws, Opt (kw ''async''),
           parens, Star ws, str ''=>'']"

definition js_classRegex :: re where
  "js_classRegex = seqs [Opt (kw ''export''), named ''class'' 1]"

definition js_interfaceRegex :: re where
  "js_interfaceRegex = seqs [Opt (kw ''export''), named ''interface'' 1]"

definition js_typeRegex :: re where
  "js_typeRegex = seqs [Opt (kw ''export''), named ''type'' 1]"

definition js_constRegex :: re where
  "js_constRegex =
     seqs [Opt (kw ''export''), str ''const'', Plus ws, Group 1 upper_name, Star ws, Lit CHR ''='']"

text \<open>Python\<close>

definition py_importRegex :: re where
  "py_importRegex =
     seqs [Opt (seqs [str ''from'', Plus ws, Group 1 (Plus (Set True [NonSpace])), Plus ws]),
           str ''import'', Plus ws, Group 2 (Plus (but (CHR 0x0A)))]"

definition py_funcRegex :: re where
  "py_funcRegex = seqs [named ''def'' 1, Star ws, Lit CHR ''('']"

definition py_classRegex :: re where
  "py_classRegex = named ''class'' 1"

definition py_constRegex :: re where
  "py_constRegex = seqs [Bol, Group 1 upper_name, Star ws, Lit CHR ''='']"

text \<open>Java\<close>

definition java_importRegex :: re where
  "java_importRegex =
     seqs [str ''import'', Plus ws, Opt (kw ''static''), Group 1 (Plus (but CHR '';'')), Lit CHR '';'']"

definition java_visibility :: re where
  "java_visibility = alts [str ''public'', str ''private'', str ''protected'']"

definition java_classRegex :: re where
  "java_classRegex = seqs [Opt java_visibility, Star ws, named ''class'' 1]"

definition java_interfaceRegex :: re where
  "java_interfaceRegex = seqs [Opt java_visibility, Star ws, named ''interface'' 1]"

definition java_methodRegex :: re where
  "java_methodRegex =
     seqs [Opt java_visibility, Star ws, Opt (kw ''static''), Star (Seq (Plus word) (Plus ws)),
           Group 1 (Plus word), Star ws, parens, Star ws, Lit CHR ''{'']"

text \<open>C and C++\<close>

definition c_includeRegex :: re where
  "c_includeRegex =
     seqs [str ''#include'', Star ws, Set True [Ch CHR ''<'', Ch (CHR 0x22)],
           Group 1 (Plus (Set False [Ch CHR ''>'', Ch (CHR 0x22)])),
           Set True [Ch CHR ''>'', Ch (CHR 0x22)]]"

definition c_funcRegex :: re where
  "c_funcRegex =
     seqs [Opt (kw ''static''),
           Plus (seqs [Plus word, Plus ws, Opt (Lit CHR ''*''), Star ws]),
           Group 1 (Plus word), Star ws, parens, Star ws, alts [Lit CHR ''{'', Lit CHR '';'']]"

definition c_defineRegex :: re where
  "c_defineRegex = seqs [str ''#define'', Plus ws, Group 1 upper_name]"

text \<open>C#\<close>

definition cs_usingRegex :: re where
  "cs_usingRegex = seqs [str ''using'', Plus ws, Group 1 (Plus (but CHR '';'')), Lit CHR '';'']"

definition cs_visibility :: re where
  "cs_visibility = alts [str ''public'', str ''private'', str ''internal'']"

definition cs_classRegex :: re where
  "cs_classRegex =
     seqs [Opt cs_visibility, Star ws, Opt (alts [kw ''abstract'', kw ''static'']),
           named ''class'' 1]"

definition cs_interfaceRegex :: re where
  "cs_interfaceRegex = seqs [Opt cs_visibility, Star ws, named ''interface'' 1]"

definition cs_methodRegex :: re where
  "cs_methodRegex =
     seqs [Opt (alts [str ''public'', str ''private'', str ''protected'', str ''internal'']),
           Star ws, Opt (kw ''static''), Opt (kw ''virtual''), Opt (kw ''override''),
           Star (Seq (Plus word) (Plus ws)),
           Group 1 (Plus word), Star ws, parens, Star ws, Lit CHR ''{'']"

text \<open>Go\<close>

definition go_importRegex :: re where
  "go_importRegex =
     seqs [str ''import'', Plus ws,
           alts [seqs [Lit CHR ''('', Star ws, Group 1 (Plus (but CHR '')'')), Star ws, Lit CHR '')''],
                 seqs [Lit (CHR 0x22), Group 2 (Plus (but (CHR 0x22))), Lit (CHR 0x22)]]]"

definition go_funcRegex :: re where
  "go_funcRegex =
     seqs [str ''func'', Plus ws, Opt (Seq parens (Plus ws)), Group 1 (Plus word), Star ws,
           Lit CHR ''('']"

definition go_constRegex :: re where
  "go_constRegex = named ''const'' 1"

text \<open>Rust\<close>

definition rust_useRegex :: re where
  "rust_useRegex = seqs [str ''use'', Plus ws, Group 1 (Plus (but CHR '';'')), Lit CHR '';'']"

definition rust_funcRegex :: re where
  "rust_funcRegex = seqs [Opt (kw ''pub''), named ''fn'' 1, Star ws, Lit CHR ''('']"

definition rust_constRegex :: re where
  "rust_constRegex = seqs [Opt (kw ''pub''), named ''const'' 1]"

text \<open>Any other extension: \<open>/\/\*[\s\S]*?\*\/|\/\/.*$/m\<close> and \<open>/#.*$/m\<close>\<close>

definition commentRegex :: re where
  "commentRegex =
     Alt (seqs [str ''/*'', LazyStar (Set True [Space, NonSpace]), str ''*/''])
         (seqs [str ''//'', Star Dot, Eol])"

definition hashRegex :: re where
  "hashRegex = seqs [Lit CHR ''#'', Star Dot, Eol]"

subsection \<open>The arrays that an extractor fills\<close>

record found =
  imports_f :: "jsval list"
  exports_f :: "jsval list"
  functions_f :: "jsval list"
  classes_f :: "jsval list"
  interfaces_f :: "jsval list"
  constants_f :: "jsval list"
  types_f :: "jsval list"

definition nothing_found :: found where
  "nothing_found =
     \<lparr> imports_f = [], exports_f = [], functions_f = [], classes_f = [], interfaces_f = [],
       constants_f = [], types_f = [] \<rparr>"

text \<open>\<open>array.push(v)\<close>, and \<open>if (!array.includes(v)) array.push(v)\<close>.\<close>

definition push :: "jsval \<Rightarrow> jsval list \<Rightarrow> jsval list" where
  "push v array = array @ [v]"

definition push_new :: "jsval \<Rightarrow> jsval list \<Rightarrow> jsval list" where
  "push_new v array = (if v \<in> set array then array else push v array)"

text \<open>\<open>v.trim()\<close> and \<open>v.split(c)\<close> throw a \<open>TypeError\<close> on \<open>undefined\<close>.\<close>

fun trim_val :: "jsval \<Rightarrow> jsval outcome" where
  "trim_val (Str s) = Returns (Str (trim s))"
| "trim_val Undefined = Throws TypeError"

fun split_val :: "char \<Rightarrow> jsval \<Rightarrow> string list outcome" where
  "split_val c (Str s) = Returns (split_sep c s)"
| "split_val c Undefined = Throws TypeError"

text \<open>A sequence of loops over the same arrays.\<close>

fun in_turn :: "('s \<Rightarrow> 's outcome) list \<Rightarrow> 's \<Rightarrow> 's outcome" where
  "in_turn [] acc = Returns acc"
| "in_turn (f # fs) acc = and_then (f acc) (in_turn fs)"

text \<open>The fragment that an extractor returns: \<open>None\<close> is a property that the returned
  object does not have.\<close>

record fragment =
  imports_m :: "jsval list option"
  exports_m :: "jsval list option"
  functions_m :: "jsval list option"
  classes_m :: "jsval list option"
  interfaces_m :: "jsval list option"
  constants_m :: "jsval list option"
  types_m :: "jsval list option"
  lineCount :: "nat option"
  hasComments :: "bool option"

definition no_fragment :: fragment where
  "no_fragment =
     \<lparr> imports_m = None, exports_m = None, functions_m = None, classes_m = None, interfaces_m = None,
       constants_m = None, types_m = None, lineCount = None, hasComments = None \<rparr>"

subsection \<open>\<open>extractJavaScriptMetadata\<close>\<close>

text \<open>\<open>a || b\<close>, and \<open>match[1] || match[2] || ... || match[7]\<close>.\<close>

definition or_else :: "jsval \<Rightarrow> jsval \<Rightarrow> jsval" where
  "or_else a b = (if truthy a then a else b)"

definition export_name :: "rmatch \<Rightarrow> jsval" where
  "export_name mt =
     or_else (cap 1 mt) (or_else (cap 2 mt) (or_else (cap 3 mt) (or_else (cap 4 mt)
       (or_else (cap 5 mt) (or_else (cap 6 mt) (cap 7 mt))))))"

text \<open>The body of the loop over the export statements.\<close>

definition export_body :: "rmatch \<Rightarrow> found \<Rightarrow> found outcome" where
  "export_body mt a =
     (let name = export_name mt
      in Returns
           (if truthy name
            then if truthy (cap 1 mt) then a\<lparr> functions_f := push name (functions_f a) \<rparr>
                 else if truthy (cap 2 mt) then a\<lparr> classes_f := push name (classes_f a) \<rparr>
                 else if truthy (cap 6 mt) then a\<lparr> interfaces_f := push name (interfaces_f a) \<rparr>
                 else if truthy (cap 7 mt) then a\<lparr> types_f := push name (types_f a) \<rparr>
                 else a\<lparr> exports_f := push name (exports_f a) \<rparr>
            else a))"

text \<open>The scans of import, require and export statements, then the scans of
  declarations.\<close>

definition js_statement_scans :: "string \<Rightarrow> (found \<Rightarrow> found outcome) list" where
  "js_statement_scans content =
     [scan js_importRegex content
        (\<lambda>mt a. Returns (a\<lparr> imports_f := push (cap 1 mt) (imports_f a) \<rparr>)),
      scan js_requireRegex content
        (\<lambda>mt a. Returns (a\<lparr> imports_f := push (cap 1 mt) (imports_f a) \<rparr>)),
      scan js_exportRegex content export_body]"

definition js_declaration_scans :: "string \<Rightarrow> (found \<Rightarrow> found outcome) list" where
  "js_declaration_scans content =
     [scan js_funcRegex content
        (\<lambda>mt a. Returns (a\<lparr> functions_f := push_new (cap 1 mt) (functions_f a) \<rparr>)),
      scan js_arrowFuncRegex content
        (\<lambda>mt a. Returns (a\<lparr> functions_f := push_new (cap 1 mt) (functions_f a) \<rparr>)),
      scan js_classRegex content
        (\<lambda>mt a. Returns (a\<lparr> classes_f := push_new (cap 1 mt) (classes_f a) \<rparr>)),
      scan js_interfaceRegex content
        (\<lambda>mt a. Returns (a\<lparr> interfaces_f := push_new (cap 1 mt) (interfaces_f a) \<rparr>)),
      scan js_typeRegex content
        (\<lambda>mt a. Returns (a\<lparr> types_f := push_new (cap 1 mt) (types_f a) \<rparr>)),
      scan js_constRegex content
        (\<lambda>mt a. Returns (a\<lparr> constants_f := push_new (cap 1 mt) (constants_f a) \<rparr>))]"

definition extractJavaScriptMetadata :: "string \<Rightarrow> fragment outcome" where
  "extractJavaScriptMetadata content =
     and_then
       (in_turn (js_statement_scans content @ js_declaration_scans content) nothing_found)
       (\<lambda>a. Returns
          (no_fragment
             \<lparr> imports_m := Some (imports_f a), exports_m := Some (exports_f a),
               functions_m := Some (functions_f a), classes_m := Some (classes_f a),
               interfaces_m := Some (interfaces_f a), constants_m := Some (constants_f a),
               types_m := Some (types_f a) \<rparr>))"

subsection \<open>\<open>extractPythonMetadata\<close>\<close>

text \<open>What one match of the import statement adds to \<open>imports\<close>:
  \<open>if (match[1]) imports.push(match[1]);
  imports.push(...match[2].split(',').map(i => i.trim()))\<close>\<close>

definition py_imported :: "rmatch \<Rightarrow> jsval list outcome" where
  "py_imported mt =
     and_then (split_val CHR '','' (cap 2 mt))
       (\<lambda>names. Returns ((if truthy (cap 1 mt) then [cap 1 mt] else [])
                          @ map (\<lambda>i. Str (trim i)) names))"

definition py_import_body :: "rmatch \<Rightarrow> found \<Rightarrow> found outcome" where
  "py_import_body mt a =
     and_then (py_imported mt) (\<lambda>vs. Returns (a\<lparr> imports_f := imports_f a @ vs \<rparr>))"

definition extractPythonMetadata :: "string \<Rightarrow> fragment outcome" where
  "extractPythonMetadata content =
     and_then
       (in_turn
          [scan py_importRegex content py_import_body,
           scan py_funcRegex content
             (\<lambda>mt a. Returns (a\<lparr> functions_f := push (cap 1 mt) (functions_f a) \<rparr>)),
           scan py_classRegex content
             (\<lambda>mt a. Returns (a\<lparr> classes_f := push (cap 1 mt) (classes_f a) \<rparr>)),
           scan py_constRegex content
             (\<lambda>mt a. Returns (a\<lparr> constants_f := push (cap 1 mt) (constants_f a) \<rparr>))]
          nothing_found)
       (\<lambda>a. Returns
          (no_fragment
             \<lparr> imports_m := Some (imports_f a), functions_m := Some (functions_f a),
               classes_m := Some (classes_f a), constants_m := Some (constants_f a) \<rparr>))"

subsection \<open>\<open>extractJavaMetadata\<close> and \<open>extractCSharpMetadata\<close>\<close>

text \<open>\<open>imports.push(match[1].trim())\<close>\<close>

definition trimmed_import_body :: "rmatch \<Rightarrow> found \<Rightarrow> found outcome" where
  "trimmed_import_body mt a =
     and_then (trim_val (cap 1 mt)) (\<lambda>v. Returns (a\<lparr> imports_f := push v (imports_f a) \<rparr>))"

text \<open>\<open>if (match[1] !== 'class' && match[1] !== 'interface') functions.push(match[1])\<close>\<close>

definition method_body :: "rmatch \<Rightarrow> found \<Rightarrow> found outcome" where
  "method_body mt a =
     Returns (if cap 1 mt \<noteq> Str ''class'' \<and> cap 1 mt \<noteq> Str ''interface''
              then a\<lparr> functions_f := push (cap 1 mt) (functions_f a) \<rparr> else a)"

definition extractJavaMetadata :: "string \<Rightarrow> fragment outcome" where
  "extractJavaMetadata content =
     and_then
       (in_turn
          [scan java_importRegex content trimmed_import_body,
           scan java_classRegex content
             (\<lambda>mt a. Returns (a\<lparr> classes_f := push (cap 1 mt) (classes_f a) \<rparr>)),
           scan java_interfaceRegex content
             (\<lambda>mt a. Returns (a\<lparr> interfaces_f := push (cap 1 mt) (interfaces_f a) \<rparr>)),
           scan java_methodRegex content method_body]
          nothing_found)
       (\<lambda>a. Returns
          (no_fragment
             \<lparr> imports_m := Some (imports_f a), classes_m := Some (classes_f a),
               interfaces_m := Some (interfaces_f a), functions_m := Some (functions_f a) \<rparr>))"

definition extractCSharpMetadata :: "string \<Rightarrow> fragment outcome" where
  "extractCSharpMetadata content =
     and_then
       (in_turn
          [scan cs_usingRegex content trimmed_import_body,
           scan cs_classRegex content
             (\<lambda>mt a. Returns (a\<lparr> classes_f := push (cap 1 mt) (classes_f a) \<rparr>)),
           scan cs_interfaceRegex content
             (\<lambda>mt a. Returns (a\<lparr> interfaces_f := push (cap 1 mt) (interfaces_f a) \<rparr>)),
           scan cs_methodRegex content method_body]
          nothing_found)
       (\<lambda>a. Returns
          (no_fragment
             \<lparr> imports_m := Some (imports_f a), classes_m := Some (classes_f a),
               interfaces_m := Some (interfaces_f a), functions_m := Some (functions_f a) \<rparr>))"

subsection \<open>\<open>extractCMetadata\<close>\<close>

text \<open>\<open>if (match[1] !== 'if' && match[1] !== 'while' && match[1] !== 'for')
  functions.push(match[1])\<close>\<close>

definition c_func_body :: "rmatch \<Rightarrow> found \<Rightarrow> found outcome" where
  "c_func_body mt a =
     Returns (if cap 1 mt \<noteq> Str ''if'' \<and> cap 1 mt \<noteq> Str ''while'' \<and> cap 1 mt \<noteq> Str ''for''
              then a\<lparr> functions_f := push (cap 1 mt) (functions_f a) \<rparr> else a)"

definition extractCMetadata :: "string \<Rightarrow> fragment outcome" where
  "extractCMetadata content =
     and_then
       (in_turn
          [scan c_includeRegex content
             (\<lambda>mt a. Returns (a\<lparr> imports_f := push (cap 1 mt) (imports_f a) \<rparr>)),
           scan c_funcRegex content c_func_body,
           scan c_defineRegex content
             (\<lambda>mt a. Returns (a\<lparr> constants_f := push (cap 1 mt) (constants_f a) \<rparr>))]
          nothing_found)
       (\<lambda>a. Returns
          (no_fragment
             \<lparr> imports_m := Some (imports_f a), functions_m := Some (functions_f a),
               constants_m := Some (constants_f a) \<rparr>))"

subsection \<open>\<open>extractGoMetadata\<close>\<close>

text \<open>
  What one match of the import statement adds to \<open>imports\<close>:
  \<open>if (match[1]) imports.push(...match[1].split('\n')
      .map(i => i.trim().replace(/"/g, '')).filter(i => i));
  else if (match[2]) imports.push(match[2])\<close>
\<close>

definition go_imported :: "rmatch \<Rightarrow> jsval list outcome" where
  "go_imported mt =
     (if truthy (cap 1 mt)
      then and_then (split_val (CHR 0x0A) (cap 1 mt))
             (\<lambda>lines. Returns
                (map Str (filter (\<lambda>i. i \<noteq> [])
                            (map (\<lambda>i. filter (\<lambda>c. c \<noteq> CHR 0x22) (trim i)) lines))))
      else if truthy (cap 2 mt) then Returns [cap 2 mt]
      else Returns [])"

definition go_import_body :: "rmatch \<Rightarrow> found \<Rightarrow> found outcome" where
  "go_import_body mt a =
     and_then (go_imported mt) (\<lambda>vs. Returns (a\<lparr> imports_f := imports_f a @ vs \<rparr>))"

definition extractGoMetadata :: "string \<Rightarrow> fragment outcome" where
  "extractGoMetadata content =
     and_then
       (in_turn
          [scan go_importRegex content go_import_body,
           scan go_funcRegex content
             (\<lambda>mt a. Returns (a\<lparr> functions_f := push (cap 1 mt) (functions_f a) \<rparr>)),
           scan go_constRegex content
             (\<lambda>mt a. Returns (a\<lparr> constants_f := push (cap 1 mt) (constants_f a) \<rparr>))]
          nothing_found)
       (\<lambda>a. Returns
          (no_fragment
             \<lparr> imports_m := Some (imports_f a), functions_m := Some (functions_f a),
               constants_m := Some (constants_f a) \<rparr>))"

subsection \<open>\<open>extractRustMetadata\<close>\<close>

definition extractRustMetadata :: "string \<Rightarrow> fragment outcome" where
  "extractRustMetadata content =
     and_then
       (in_turn
          [scan rust_useRegex content trimmed_import_body,
           scan rust_funcRegex content
             (\<lambda>mt a. Returns (a\<lparr> functions_f := push (cap 1 mt) (functions_f a) \<rparr>)),
           scan rust_constRegex content
             (\<lambda>mt a. Returns (a\<lparr> constants_f := push (cap 1 mt) (constants_f a) \<rparr>))]
          nothing_found)
       (\<lambda>a. Returns
          (no_fragment
             \<lparr> imports_m := Some (imports_f a), functions_m := Some (functions_f a),
               constants_m := Some (constants_f a) \<rparr>))"

subsection \<open>\<open>extractGenericMetadata\<close>\<close>

definition extractGenericMetadata :: "string \<Rightarrow> fragment outcome" where
  "extractGenericMetadata content =
     Returns
       (no_fragment
          \<lparr> lineCount := Some (length (split_sep (CHR 0x0A) content)),
            hasComments := Some (test commentRegex content \<or> test hashRegex content) \<rparr>)"

section \<open>\<open>extractFileMetadata\<close>\<close>

text \<open>The record of a file: the fragment's properties, and \<open>path\<close>, \<open>extension\<close>, \<open>size\<close>
  and \<open>error\<close>.\<close>

record metadata = fragment +
  path :: string
  extension :: string
  size_m :: "nat option"
  error :: "string option"

text \<open>\<open>{ ...metadata, ...fragment }\<close>: a property of the fragment replaces the record's.\<close>

definition over :: "'a option \<Rightarrow> 'a option \<Rightarrow> 'a option" where
  "over new old = (case new of Some v \<Rightarrow> Some v | None \<Rightarrow> old)"

definition spread :: "metadata \<Rightarrow> fragment \<Rightarrow> metadata" where
  "spread md fr =
     md\<lparr> imports_m := over (imports_m fr) (imports_m md),
         exports_m := over (exports_m fr) (exports_m md),
         functions_m := over (functions_m fr) (functions_m md),
         classes_m := over (classes_m fr) (classes_m md),
         interfaces_m := over (interfaces_m fr) (interfaces_m md),
         constants_m := over (constants_m fr) (constants_m md),
         types_m := over (types_m fr) (types_m md),
         lineCount := over (lineCount fr) (lineCount md),
         hasComments := over (hasComments fr) (hasComments md) \<rparr>"

text \<open>The \<open>switch (ext)\<close>.\<close>

definition extract_by_extension :: "string \<Rightarrow> string \<Rightarrow> fragment outcome" where
  "extract_by_extension ext content =
     (if ext \<in> {''.js'', ''.jsx'', ''.ts'', ''.tsx''} then extractJavaScriptMetadata content
      else if ext = ''.py'' then extractPythonMetadata content
      else if ext = ''.java'' then extractJavaMetadata content
      else if ext \<in> {''.cpp'', ''.c'', ''.h''} then extractCMetadata content
      else if ext = ''.cs'' then extractCSharpMetadata content
      else if ext = ''.go'' then extractGoMetadata content
      else if ext = ''.rs'' then extractRustMetadata content
      else extractGenericMetadata content)"

text \<open>
  \<open>readFileSync\<close> is the file system: the text of a file, or the error that reading it
  raises. Files are named by their paths relative to the root, which is what
  \<open>path.relative(this.rootDir, filePath)\<close> returns; \<open>size\<close> is \<open>content.length\<close>.
\<close>

definition extractFileMetadata :: "(string \<Rightarrow> js_error + string) \<Rightarrow> string \<Rightarrow> metadata outcome" where
  "extractFileMetadata readFileSync filePath =
     try_catch
       (case readFileSync filePath of
          Inl e \<Rightarrow> Throws e
        | Inr content \<Rightarrow>
            let ext = extname filePath;
                md = \<lparr> imports_m = Some [], exports_m = Some [], functions_m = Some [],
                       classes_m = Some [], interfaces_m = Some [], constants_m = Some [],
                       types_m = Some [], lineCount = None, hasComments = None,
                       path = filePath, extension = ext, size_m = Some (length content),
                       error = None \<rparr>
            in and_then (extract_by_extension ext content) (\<lambda>fr. Returns (spread md fr)))
       (\<lambda>e. Returns
          \<lparr> imports_m = None, exports_m = None, functions_m = None, classes_m = None,
            interfaces_m = None, constants_m = None, types_m = None, lineCount = None,
            hasComments = None,
            path = filePath, extension = extname filePath, size_m = None,
            error = Some (message e) \<rparr>)"

section \<open>Objects used as dictionaries\<close>

text \<open>
  An object that the code fills by \<open>object[key] = value\<close> is the list of its own
  properties in the order of their creation. Every such object inherits from
  \<open>Object.prototype\<close>: reading \<open>object[key]\<close> for a key that is not an own property finds
  the methods below, and \<open>__proto__\<close> is an accessor, so that \<open>object['__proto__'] = value\<close>
  creates no own property. The built-in objects are taken to be in their standard state.
\<close>

definition object_prototype_functions :: "string list" where
  "object_prototype_functions =
     [''constructor'', ''hasOwnProperty'', ''isPrototypeOf'', ''propertyIsEnumerable'',
      ''toLocaleString'', ''toString'', ''valueOf'', ''__defineGetter__'', ''__defineSetter__'',
      ''__lookupGetter__'', ''__lookupSetter__'']"


definition set_prop :: "string \<Rightarrow> 'v \<Rightarrow> (string \<times> 'v) list \<Rightarrow> (string \<times> 'v) list" where
  "set_prop k v obj = (if k = ''__proto__'' then obj else AList.update k v obj)"

text \<open>
  \<open>Object.entries\<close> lists the keys that are array indices first, in ascending order,
  then the other keys in the order of their creation.
\<close>

definition is_digit :: "char \<Rightarrow> bool" where
  "is_digit c = (48 \<le> (of_char c :: nat) \<and> (of_char c :: nat) \<le> 57)"

definition decimal :: "string \<Rightarrow> nat" where
  "decimal k = fold (\<lambda>c n. 10 * n + (of_char c - 48)) k 0"

definition array_index :: "string \<Rightarrow> nat option" where
  "array_index k =
     (if k \<noteq> [] \<and> list_all is_digit k \<and> (k = ''0'' \<or> hd k \<noteq> CHR ''0'')
         \<and> length k \<le> 10 \<and> decimal k < 4294967295
      then Some (decimal k) else None)"

definition object_entries :: "(string \<times> 'v) list \<Rightarrow> (string \<times> 'v) list" where
  "object_entries obj =
     sort_key (\<lambda>kv. case array_index (fst kv) of Some n \<Rightarrow> n | None \<Rightarrow> 0)
       (filter (\<lambda>kv. array_index (fst kv) \<noteq> None) obj)
     @ filter (\<lambda>kv. array_index (fst kv) = None) obj"

section \<open>\<open>buildFileTree\<close>\<close>

text \<open>A value of the tree: the marker \<open>'file'\<close>, or the object of a directory.\<close>

datatype node = File | Dir "(string \<times> node) list"

text \<open>The number of file markers in a tree.\<close>

fun leaves :: "node \<Rightarrow> nat" where
  "leaves File = 1"
| "leaves (Dir kvs) = sum_list (map (\<lambda>kv. leaves (snd kv)) kvs)"

text \<open>
  The inner loop when \<open>current\<close> has become the string \<open>'file'\<close>: the class body is strict
  code, so creating a property on a string throws a \<open>TypeError\<close>; the setter of
  \<open>__proto__\<close> ignores the assignment. With further segments the loop would read
  properties of the string.
\<close>

fun on_string :: "string list \<Rightarrow> (string \<times> node) list \<Rightarrow> (string \<times> node) list outcome" where
  "on_string [final] tree = (if final = ''__proto__'' then Returns tree else Throws TypeError)"
| "on_string parts tree = Beyond"

text \<open>
  The inner loop when \<open>current\<close> has become a method of \<open>Object.prototype\<close>: a final segment
  with a dot in it names no property of a built-in function, the marker becomes a new
  property of that function and the tree is as it was.
\<close>

fun on_builtin :: "string list \<Rightarrow> (string \<times> node) list \<Rightarrow> (string \<times> node) list outcome" where
  "on_builtin [final] tree = (if CHR ''.'' \<in> set final then Returns tree else Beyond)"
| "on_builtin parts tree = Beyond"

text \<open>
  The inner loop \<open>for (let i = 0; i < parts.length; i++)\<close> from the object \<open>current\<close> on:
  the last segment is assigned the marker; any other segment is created as an empty
  object when \<open>!current[part]\<close>, and \<open>current\<close> moves to \<open>current[part]\<close>, whatever it is.
\<close>

fun add_parts :: "string list \<Rightarrow> (string \<times> node) list \<Rightarrow> (string \<times> node) list outcome" where
  "add_parts [] current = Returns current"
| "add_parts [part] current = Returns (set_prop part File current)"
| "add_parts (part # parts) current =
     (case map_of current part of
        Some File \<Rightarrow> on_string parts current
      | Some (Dir sub) \<Rightarrow>
          and_then (add_parts parts sub) (\<lambda>sub'. Returns (AList.update part (Dir sub') current))
      | None \<Rightarrow>
          if part \<in> set object_prototype_functions then on_builtin parts current
          else if part = ''__proto__'' then Beyond
          else and_then (add_parts parts [])
                 (\<lambda>sub'. Returns (AList.update part (Dir sub') current)))"

text \<open>The outer loop \<open>for (const file of files)\<close>, with
  \<open>parts = relativePath.split(path.sep)\<close>.\<close>

fun add_files :: "string list \<Rightarrow> (string \<times> node) list \<Rightarrow> (string \<times> node) list outcome" where
  "add_files [] tree = Returns tree"
| "add_files (file # files) tree =
     and_then (add_parts (split_sep CHR ''/'' file) tree) (add_files files)"

definition buildFileTree :: "string list \<Rightarrow> (string \<times> node) list outcome" where
  "buildFileTree files = add_files files []"

section \<open>\<open>generateSummary\<close>\<close>

text \<open>
  A value of \<open>filesByExtension\<close>: a count, or the string that \<open>(value || 0) + 1\<close> makes of an
  inherited method.
\<close>

datatype tally = Count nat | Garbled

record summary =
  totalFunctions :: nat
  totalClasses :: nat
  totalInterfaces :: nat
  totalConstants :: nat
  filesByExtension :: "(string \<times> tally) list"
  largestFiles :: "(string \<times> nat) list"

text \<open>\<open>summary.filesByExtension[ext] = (summary.filesByExtension[ext] || 0) + 1\<close>\<close>

definition bump :: "string \<Rightarrow> (string \<times> tally) list \<Rightarrow> (string \<times> tally) list" where
  "bump ext counts =
     set_prop ext
       (case map_of counts ext of
          Some (Count n) \<Rightarrow> Count (n + 1)
        | Some Garbled \<Rightarrow> Garbled
        | None \<Rightarrow> if ext \<in> set object_prototype_functions then Garbled else Count 1)
       counts"

text \<open>\<open>if (metadata.functions) summary.totalFunctions += metadata.functions.length\<close>:
  an array is truthy, a missing property is not.\<close>

definition length_of :: "jsval list option \<Rightarrow> nat" where
  "length_of array = (case array of Some xs \<Rightarrow> length xs | None \<Rightarrow> 0)"

text \<open>\<open>const ext = metadata.extension || 'unknown'\<close>\<close>

definition ext_or_unknown :: "metadata \<Rightarrow> string" where
  "ext_or_unknown md = (if extension md = [] then ''unknown'' else extension md)"

text \<open>The body of the loop over \<open>Object.entries(fileMetadata)\<close>; the second component
  is \<open>fileSizes\<close>. A size of 0 is falsy, as is a missing size.\<close>

definition summary_step ::
  "string \<times> metadata \<Rightarrow> summary \<times> (string \<times> nat) list \<Rightarrow> summary \<times> (string \<times> nat) list" where
  "summary_step entry st =
     (case (entry, st) of ((filePath, md), (s, fileSizes)) \<Rightarrow>
        (s\<lparr> totalFunctions := totalFunctions s + length_of (functions_m md),
            totalClasses := totalClasses s + length_of (classes_m md),
            totalInterfaces := totalInterfaces s + length_of (interfaces_m md),
            totalConstants := totalConstants s + length_of (constants_m md),
            filesByExtension := bump (ext_or_unknown md) (filesByExtension s) \<rparr>,
         (case size_m md of
            Some n \<Rightarrow> if n \<noteq> 0 then fileSizes @ [(filePath, n)] else fileSizes
          | None \<Rightarrow> fileSizes)))"

text \<open>\<open>fileSizes.sort((a, b) => b.size - a.size).slice(0, 10)\<close>; the sort of an array is
  stable.\<close>

definition ten_largest :: "(string \<times> nat) list \<Rightarrow> (string \<times> nat) list" where
  "ten_largest fileSizes = take 10 (sort_key (\<lambda>f. - int (snd f)) fileSizes)"

definition generateSummary :: "(string \<times> metadata) list \<Rightarrow> summary" where
  "generateSummary fileMetadata =
     (case fold summary_step (object_entries fileMetadata)
             (\<lparr> totalFunctions = 0, totalClasses = 0, totalInterfaces = 0, totalConstants = 0,
                filesByExtension = [], largestFiles = [] \<rparr>, []) of
        (s, fileSizes) \<Rightarrow> s\<lparr> largestFiles := ten_largest fileSizes \<rparr>)"

text \<open>The entries that the loop puts into \<open>fileSizes\<close>: those with a size that is not 0.\<close>

definition sized_entries :: "(string \<times> metadata) list \<Rightarrow> (string \<times> nat) list" where
  "sized_entries entries =
     concat (map (\<lambda>entry. case size_m (snd entry) of
                             Some n \<Rightarrow> if n \<noteq> 0 then [(fst entry, n)] else []
                           | None \<Rightarrow> [])
                 entries)"

text \<open>
  The ranking in the words of the specification: the ten largest files by size,
  descending, ties in the order of discovery. \<open>sizes_of\<close> lists the files of the mapping
  that have a size, with their sizes.
\<close>

definition sizes_of :: "(string \<times> metadata) list \<Rightarrow> (string \<times> nat) list" where
  "sizes_of entries =
     concat (map (\<lambda>entry. case size_m (snd entry) of Some n \<Rightarrow> [(fst entry, n)] | None \<Rightarrow> [])
                 entries)"

definition spec_largestFiles :: "(string \<times> metadata) list \<Rightarrow> (string \<times> nat) list" where
  "spec_largestFiles fileMetadata =
     take 10 (sort_key (\<lambda>f. - int (snd f)) (sizes_of (object_entries fileMetadata)))"

section \<open>\<open>generateIndex\<close>\<close>

text \<open>The document, without \<open>generatedAt\<close> (the time of the build) and \<open>projectRoot\<close>;
  \<open>files_m\<close> is its property \<open>files\<close> and \<open>summary_m\<close> its property \<open>summary\<close>.\<close>

record index_document =
  totalFiles :: nat
  fileTree :: "(string \<times> node) list"
  files_m :: "(string \<times> metadata) list"
  summary_m :: summary

text \<open>The loop \<open>for (const file of files)\<close> that fills \<open>fileMetadata\<close>.\<close>

fun extract_each ::
  "(string \<Rightarrow> js_error + string) \<Rightarrow> string list \<Rightarrow> (string \<times> metadata) list
     \<Rightarrow> (string \<times> metadata) list outcome" where
  "extract_each readFileSync [] fileMetadata = Returns fileMetadata"
| "extract_each readFileSync (file # files) fileMetadata =
     and_then (extractFileMetadata readFileSync file)
       (\<lambda>md. extract_each readFileSync files (set_prop (path md) md fileMetadata))"

text \<open>
  \<open>generateIndex\<close> of the indexer. \<open>files\<close> is the result of \<open>this.scanDirectory()\<close>, the
  discovered files by their relative paths; \<open>writeFileSync\<close> is the attempt to write the
  document, with the error that it raises, if any.
\<close>

definition generateIndex ::
  "(string \<Rightarrow> js_error + string) \<Rightarrow> (index_document \<Rightarrow> js_error option) \<Rightarrow> string list
     \<Rightarrow> index_document outcome" where
  "generateIndex readFileSync writeFileSync files =
     and_then (buildFileTree files)
       (\<lambda>tree.
          and_then (extract_each readFileSync files [])
            (\<lambda>fileMetadata.
               let index = \<lparr> totalFiles = length files, fileTree = tree, files_m = fileMetadata,
                             summary_m = generateSummary fileMetadata \<rparr>
               in case writeFileSync index of
                    Some e \<Rightarrow> Throws e
                  | None \<Rightarrow> Returns index))"

section \<open>An example file system\<close>

text \<open>A project in which \<open>a.py\<close> can be read, \<open>empty.py\<close> is empty and reading any other
  file fails.\<close>

definition example_readFileSync :: "string \<Rightarrow> js_error + string" where
  "example_readFileSync p =
     (if p = ''a.py'' then Inr ''def f():''
      else if p = ''empty.py'' then Inr []
      else Inl (IOError ''EACCES''))"

text \<open>The entry of a file of \<open>n\<close> characters in which the extractor finds nothing.\<close>

definition file_of_size :: "string \<Rightarrow> nat \<Rightarrow> string \<times> metadata" where
  "file_of_size p n =
     (p, \<lparr> imports_m = Some [], exports_m = Some [], functions_m = Some [], classes_m = Some [],
            interfaces_m = Some [], constants_m = Some [], types_m = Some [], lineCount = None,
            hasComments = None,
            path = p, extension = extname p, size_m = Some n, error = None \<rparr>)"

section \<open>What a loop body adds\<close>

text \<open>The list, or the value, of an outcome that returns one. The bodies of the import
  loops return on every match of their regular expressions; these functions name what
  they return.\<close>

definition returned :: "'a list outcome \<Rightarrow> 'a list" where
  "returned r = (case r of Returns vs \<Rightarrow> vs | _ \<Rightarrow> [])"

definition returned_val :: "jsval outcome \<Rightarrow> jsval" where
  "returned_val r = (case r of Returns v \<Rightarrow> v | _ \<Rightarrow> Undefined)"

section \<open>Properties of the scheduler\<close>

lemma new_watcher_debounce_cases:
  "debounceMs (new_watcher options) =
     (case opt_debounceMs options of
        None \<Rightarrow> Num 1000
      | Some NaN \<Rightarrow> Num 1000
      | Some (Num n) \<Rightarrow> if n = 0 then Num 1000 else Num n)"
  by (simp add: new_watcher_def truthy_opt_def split: option.splits jsnum.splits)

text \<open>
  Claim C10. A falsy \<open>debounceMs\<close> option (absent, 0 or NaN) gives the watcher the default
  debounce of 1000 milliseconds, and no option at all gives it a debounce of 0.
\<close>

theorem C10_falsy_debounce_is_default:
  "(\<not> truthy_opt (opt_debounceMs options) \<longrightarrow> debounceMs (new_watcher options) = Num 1000)
   \<and> debounceMs (new_watcher options) \<noteq> Num 0
   \<and> debounceMs (new_watcher (options\<lparr> opt_debounceMs := Some (Num 0) \<rparr>)) = Num 1000"
  by (simp add: new_watcher_debounce_cases truthy_opt_def split: option.splits jsnum.splits)

theorem C10_falsy_debounce_is_default_witness:
  "\<not> truthy_opt (opt_debounceMs \<lparr> opt_debounceMs = Some NaN \<rparr>)
   \<and> debounceMs (new_watcher \<lparr> opt_debounceMs = Some NaN \<rparr>) = Num 1000"
  using C10_falsy_debounce_is_default [of "\<lparr> opt_debounceMs = Some NaN \<rparr>"]
  by (simp add: truthy_opt_def)

subsection \<open>One callback\<close>

lemma fire_pending:
  "\<not> isRebuilding w \<Longrightarrow> timers rt = [(h, dl)] \<Longrightarrow> clock rt \<le> dl \<Longrightarrow>
   fire duration (h, dl) (w, rt)
     = (w, rt\<lparr> timers := [], rebuilds := dl # rebuilds rt, clock := dl + duration dl \<rparr>)"
  by (simp add: fire_def generateIndex_watcher_def clearTimeout_def max_def)

lemma fire_all_pending:
  "\<not> isRebuilding w \<Longrightarrow> timers rt = [(h, dl)] \<Longrightarrow> clock rt \<le> dl \<Longrightarrow>
   fire_all duration (w, rt)
     = (w, rt\<lparr> timers := [], rebuilds := dl # rebuilds rt, clock := dl + duration dl \<rparr>)"
  by (simp add: fire_all_def fire_pending)


lemma deliver_pending:
  "\<not> isRebuilding w \<Longrightarrow> rebuildTimer w = Some h \<Longrightarrow> timers rt = [(h, dl)] \<Longrightarrow> t < dl \<Longrightarrow>
   deliver duration t (w, rt) = armed (max t (clock rt)) (timer_delay (debounceMs w)) (w, rt)"
  by (simp add: deliver_def fire_due_def scheduleRebuild_def armed_def setTimeout_def
        clearTimeout_def Let_def)


lemma deliver_late:
  "\<not> isRebuilding w \<Longrightarrow> rebuildTimer w = Some h \<Longrightarrow> timers rt = [(h, dl)] \<Longrightarrow>
   dl \<le> t \<Longrightarrow> clock rt \<le> dl \<Longrightarrow>
   deliver duration t (w, rt)
     = armed (max t (dl + duration dl)) (timer_delay (debounceMs w))
         (w, rt\<lparr> timers := [], rebuilds := dl # rebuilds rt \<rparr>)"
  by (simp add: deliver_def fire_due_def fire_pending scheduleRebuild_def armed_def setTimeout_def
        clearTimeout_def Let_def)

subsection \<open>No callback runs during a build\<close>

lemma scheduleRebuild_while_building:
  "scheduleRebuild now (w\<lparr> isRebuilding := True \<rparr>, rt) = (w\<lparr> isRebuilding := True \<rparr>, rt)"
  by (simp add: scheduleRebuild_def)

lemma scheduleRebuild_flag:
  "isRebuilding (fst (scheduleRebuild now s)) = isRebuilding (fst s)"
  by (cases s) (simp add: scheduleRebuild_def Let_def split: prod.splits)

lemma generateIndex_watcher_flag:
  "isRebuilding (fst (generateIndex_watcher duration now s)) = isRebuilding (fst s)"
  by (cases s) (simp add: generateIndex_watcher_def)

lemma fire_flag: "isRebuilding (fst (fire duration tm s)) = isRebuilding (fst s)"
  by (cases s) (simp add: fire_def generateIndex_watcher_flag)

lemma fold_fire_flag: "isRebuilding (fst (fold (fire duration) tms s)) = isRebuilding (fst s)"
  by (induction tms arbitrary: s) (simp_all add: fire_flag)

lemma fire_due_flag: "isRebuilding (fst (fire_due duration t s)) = isRebuilding (fst s)"
  by (simp add: fire_due_def fold_fire_flag)

lemma deliver_flag: "isRebuilding (fst (deliver duration t s)) = isRebuilding (fst s)"
proof -
  have "isRebuilding (fst (scheduleRebuild now (fire_due duration t s))) = isRebuilding (fst s)" for now
    by (simp add: scheduleRebuild_flag fire_due_flag)
  then show ?thesis
    by (simp add: deliver_def Let_def split: prod.splits) (metis fst_conv)
qed

lemma fold_deliver_flag:
  "isRebuilding (fst (fold (deliver duration) ts s)) = isRebuilding (fst s)"
  by (induction ts arbitrary: s) (simp_all add: deliver_flag)

subsection \<open>Runs\<close>



text \<open>Notifications that arrive before the event loop is free again.\<close>

lemma waiting_run:
  "\<not> isRebuilding w \<Longrightarrow> rebuildTimer w = Some h \<Longrightarrow> timers rt = [(h, c + d)] \<Longrightarrow>
   clock rt = c \<Longrightarrow> d = timer_delay (debounceMs w) \<Longrightarrow> \<forall>t \<in> set ts. t < c \<Longrightarrow>
   \<exists>w' rt' h'. fold (deliver duration) ts (w, rt) = (w', rt')
      \<and> \<not> isRebuilding w' \<and> rebuildTimer w' = Some h' \<and> timers rt' = [(h', c + d)]
      \<and> clock rt' = c \<and> rebuilds rt' = rebuilds rt"
proof (induction ts arbitrary: w rt h)
  case Nil
  then show ?case by simp
next
  case (Cons t ts)
  from Cons.prems have early: "t < c + d" and wait: "t < c" and rest: "\<forall>t \<in> set ts. t < c"
    by simp_all
  have step: "deliver duration t (w, rt) = armed c d (w, rt)"
    using Cons.prems(1-5) early wait by (simp add: deliver_pending max_def)
  obtain w' rt' where s': "armed c d (w, rt) = (w', rt')" by (cases "armed c d (w, rt)")
  with Cons.prems have inv: "\<not> isRebuilding w'" "rebuildTimer w' = Some (fresh rt)"
    "timers rt' = [(fresh rt, c + d)]" "clock rt' = c" "d = timer_delay (debounceMs w')"
    "rebuilds rt' = rebuilds rt"
    by (auto simp: armed_def)
  from Cons.IH [OF inv(1) inv(2) inv(3) inv(4) inv(5) rest]
  show ?case
    by (simp add: step s' inv(6))
qed


lemmas run_eval = run_events_def deliver_def fire_due_def fire_all_def fire_def
  generateIndex_watcher_def scheduleRebuild_def setTimeout_def clearTimeout_def new_watcher_def
  idle_runtime_def burst_def sparse_def builds_done_def Let_def




text \<open>With the default delay of 1000 and builds of 2500 milliseconds, the notifications
  at 0, 2000 and 4000 are more than the delay apart, but the second one arrives while
  the first build is running: its handler runs when the build has returned, at 3500,
  and the third notification re-arms its timer.\<close>

lemma slow_builds_coalesce:
  "sparse 1000 [0, 2000, 4000]
   \<and> rebuilds (snd (run_events (\<lambda>start. 2500) [0, 2000, 4000]
          (new_watcher \<lparr> opt_debounceMs = None \<rparr>, idle_runtime))) = [5000, 1000]"
  by (simp add: run_eval)

text \<open>
  Claim C7, as stated, fails. With the default delay and builds of 900 milliseconds,
  the notification at 0 starts a build at 1000. The notification at 1500 arrives while
  this build is in progress; it is not dropped: its handler runs when the build has
  returned, at 1900, and arms the timer, and a second rebuild starts at 2900.
\<close>

theorem C7_counterexample_event_during_build_rebuilds:
  "rebuilds (snd (fold (deliver (\<lambda>start. 900)) [0, 1500]
       (new_watcher \<lparr> opt_debounceMs = None \<rparr>, idle_runtime))) = [1000]
   \<and> 1000 \<le> (1500::nat) \<and> (1500::nat) < 1000 + 900
   \<and> timers (snd (fold (deliver (\<lambda>start. 900)) [0, 1500]
       (new_watcher \<lparr> opt_debounceMs = None \<rparr>, idle_runtime))) = [(1, 2900)]
   \<and> rebuilds (snd (run_events (\<lambda>start. 900) [0, 1500]
       (new_watcher \<lparr> opt_debounceMs = None \<rparr>, idle_runtime))) = [2900, 1000]"
  by (simp add: run_eval)

text \<open>
  Claim C7, amended. \<open>scheduleRebuild\<close> does nothing when \<open>isRebuilding\<close> is set, but no
  callback ever finds it set: the build is one synchronous call, and the flag is reset
  when it returns, so every timer callback and every handler of a notification starts
  and ends with the flag unset. Notifications that arrive while the build started by
  the pending timer is in progress are handled when the build has returned: the
  handlers arm a timer for the debounce delay after the end of the build, and one
  further rebuild starts then.
\<close>

theorem C7_event_during_build_is_deferred:
  assumes "\<not> isRebuilding w" and "rebuildTimer w = Some h" and "timers rt = [(h, dl)]"
    and "clock rt \<le> dl" and "ts \<noteq> []" and "\<forall>t \<in> set ts. dl < t \<and> t < dl + duration dl"
  shows "scheduleRebuild now (w\<lparr> isRebuilding := True \<rparr>, rt) = (w\<lparr> isRebuilding := True \<rparr>, rt)
       \<and> (\<forall>s us t'. \<not> isRebuilding (fst s) \<longrightarrow>
               \<not> isRebuilding (fst (fold (deliver duration) us s))
             \<and> \<not> isRebuilding (fst (fire_due duration t' (fold (deliver duration) us s))))
       \<and> rebuilds (snd (fold (deliver duration) ts (w, rt))) = dl # rebuilds rt
       \<and> clock (snd (fold (deliver duration) ts (w, rt))) = dl + duration dl
       \<and> (\<exists>h'. rebuildTimer (fst (fold (deliver duration) ts (w, rt))) = Some h'
              \<and> timers (snd (fold (deliver duration) ts (w, rt)))
                  = [(h', dl + duration dl + timer_delay (debounceMs w))])
       \<and> rebuilds (snd (run_events duration ts (w, rt)))
           = (dl + duration dl + timer_delay (debounceMs w)) # dl # rebuilds rt"
proof -
  let ?d = "timer_delay (debounceMs w)"
  let ?c = "dl + duration dl"
  let ?rt1 = "rt\<lparr> timers := [], rebuilds := dl # rebuilds rt \<rparr>"
  have guard: "scheduleRebuild now (w\<lparr> isRebuilding := True \<rparr>, rt)
      = (w\<lparr> isRebuilding := True \<rparr>, rt)"
    by (rule scheduleRebuild_while_building)
  have flag: "\<forall>s us t'. \<not> isRebuilding (fst s) \<longrightarrow>
               \<not> isRebuilding (fst (fold (deliver duration) us s))
             \<and> \<not> isRebuilding (fst (fire_due duration t' (fold (deliver duration) us s)))"
    by (simp add: fire_due_flag fold_deliver_flag)
  obtain t ts' where ts: "ts = t # ts'" using assms(5) by (cases ts) auto
  from assms(6) have t: "dl \<le> t" "t < ?c" and rest: "\<forall>t \<in> set ts'. t < ?c"
    by (simp_all add: ts)
  have step: "deliver duration t (w, rt) = armed ?c ?d (w, ?rt1)"
    using assms(1-4) t by (simp add: deliver_late max_def)
  obtain w1 rt1 where s1: "armed ?c ?d (w, ?rt1) = (w1, rt1)" by (cases "armed ?c ?d (w, ?rt1)")
  with assms(1) have inv: "\<not> isRebuilding w1" "rebuildTimer w1 = Some (fresh rt)"
    "timers rt1 = [(fresh rt, ?c + ?d)]" "clock rt1 = ?c" "?d = timer_delay (debounceMs w1)"
    "rebuilds rt1 = dl # rebuilds rt"
    by (auto simp: armed_def)
  from waiting_run [OF inv(1) inv(2) inv(3) inv(4) inv(5) rest, of duration]
  obtain w' rt' h' where final: "fold (deliver duration) ts' (w1, rt1) = (w', rt')"
    "\<not> isRebuilding w'" "rebuildTimer w' = Some h'" "timers rt' = [(h', ?c + ?d)]"
    "clock rt' = ?c" "rebuilds rt' = rebuilds rt1"
    by blast
  have run: "fold (deliver duration) ts (w, rt) = (w', rt')"
    by (simp add: ts step s1 final(1))
  have again: "rebuilds (snd (run_events duration ts (w, rt))) = (?c + ?d) # dl # rebuilds rt"
    using final(2,4,5,6) inv(6) by (simp add: run_events_def run fire_all_pending)
  show ?thesis
    using guard flag final(3,4,5,6) inv(6) again by (simp only: run fst_conv snd_conv) blast
qed

theorem C7_event_during_build_is_deferred_witness:
  "deliver (\<lambda>start. 911) 1342 (new_watcher \<lparr> opt_debounceMs = Some (Num 200) \<rparr>, idle_runtime)
       = (new_watcher \<lparr> opt_debounceMs = Some (Num 200) \<rparr> \<lparr> rebuildTimer := Some 0 \<rparr>,
          \<lparr> timers = [(0, 1542)], fresh = 1, rebuilds = [], clock = 1342 \<rparr>)
   \<and> \<not> isRebuilding (new_watcher \<lparr> opt_debounceMs = Some (Num 200) \<rparr> \<lparr> rebuildTimer := Some 0 \<rparr>)
   \<and> (1542::nat) < 2000 \<and> (2100::nat) < 1542 + 911
   \<and> rebuilds (snd (fold (deliver (\<lambda>start. 911)) [2000, 2100]
         (new_watcher \<lparr> opt_debounceMs = Some (Num 200) \<rparr> \<lparr> rebuildTimer := Some 0 \<rparr>,
          \<lparr> timers = [(0, 1542)], fresh = 1, rebuilds = [], clock = 1342 \<rparr>))) = [1542]
   \<and> rebuilds (snd (run_events (\<lambda>start. 911) [2000, 2100]
         (new_watcher \<lparr> opt_debounceMs = Some (Num 200) \<rparr> \<lparr> rebuildTimer := Some 0 \<rparr>,
          \<lparr> timers = [(0, 1542)], fresh = 1, rebuilds = [], clock = 1342 \<rparr>))) = [2653, 1542]"
  using C7_event_during_build_is_deferred
    [of "new_watcher \<lparr> opt_debounceMs = Some (Num 200) \<rparr> \<lparr> rebuildTimer := Some 0 \<rparr>" 0
        "\<lparr> timers = [(0, 1542)], fresh = 1, rebuilds = [], clock = 1342 \<rparr>" 1542
        "[2000, 2100]" "\<lambda>start. 911" 0]
  by (simp add: new_watcher_def idle_runtime_def deliver_def fire_due_def scheduleRebuild_def
        setTimeout_def Let_def)

section \<open>Properties of the ignore matcher\<close>

text \<open>
  Claim C1. The second replacement of \<open>shouldIgnoreFile\<close> also rewrites the \<open>*\<close> of the
  \<open>.*\<close> that the first one has just produced: \<open>**\<close> becomes \<open>.[^/]*\<close>, one character and
  then characters other than the separator, so it cannot cross a separator. The pattern
  \<open>docs/**/*.md\<close> does not exclude \<open>docs/a/b/readme.md\<close>, which it matches when
  \<open>**\<close> stands for the two segments \<open>a/b\<close>.
\<close>

theorem C1_recursive_wildcard_misses_nested_path:
  "replace_star (replace_starstar ''docs/**/*.md'') = ''docs/.[^/]*/[^/]*.md''
   \<and> shouldIgnoreFile [''docs/**/*.md''] ''docs/a/b/readme.md'' = Returns False
   \<and> spec_ignores [''docs/**/*.md''] ''docs/a/b/readme.md''"
  by (simp add: shouldIgnoreFile_def pattern_matches_def test_def search.simps step_if_def regex_special_def
        line_terminator_def spec_ignores_def)

section \<open>Properties of the file tree\<close>

text \<open>
  Claim C2. A path that needs a directory where an earlier path has left a file marker
  does not replace the marker: the guard \<open>if (!current[part])\<close> keeps it, \<open>current\<close> becomes
  the string, and the assignment of the next segment throws a \<open>TypeError\<close>. In the other
  direction the later path does overwrite the directory with the marker.
\<close>

theorem C2_directory_over_file_marker_throws:
  "buildFileTree [''a'', ''a/b''] = Throws TypeError
   \<and> buildFileTree [''a/b'', ''a''] = Returns [(''a'', File)]"
  by (simp add: buildFileTree_def set_prop_def object_prototype_functions_def)

lemmas js_regex_defs = js_importRegex_def js_requireRegex_def js_exportRegex_def js_funcRegex_def
  js_arrowFuncRegex_def js_classRegex_def js_interfaceRegex_def js_typeRegex_def js_constRegex_def
  ws_def word_def but_def quote_def unquoted_def upper_name_def kw_def parens_def named_def
  import_clause_def Plus_def Opt_def

lemma extract_example:
  "extractFileMetadata (\<lambda>p. Inr ''function f() {}'') ''constructor/a.js'' =
     Returns \<lparr> imports_m = Some [], exports_m = Some [], functions_m = Some [Str ''f''],
               classes_m = Some [], interfaces_m = Some [], constants_m = Some [],
               types_m = Some [], lineCount = None, hasComments = None,
               path = ''constructor/a.js'', extension = ''.js'', size_m = Some 15,
               error = None \<rparr>"
  by (simp add: extractFileMetadata_def extname_def basename_part_def extract_by_extension_def
      extractJavaScriptMetadata_def js_statement_scans_def js_declaration_scans_def scan_def
      while_exec.simps search.simps js_regex_defs step_if_def
      nothing_found_def
      is_space_def is_word_def cap_def push_def push_new_def export_body_def export_name_def
      or_else_def spread_def over_def
      no_fragment_def Let_def)

text \<open>
  Claim C8. For a project whose only source file is \<open>constructor/a.js\<close>, the tree builder
  reads \<open>current['constructor']\<close>, finds the inherited \<open>Object\<close> function instead of a
  missing directory, and puts the marker on that function: the document has
  \<open>totalFiles = 1\<close>, one entry in \<open>files\<close>, and a tree with no file marker at all.
\<close>

theorem C8_directory_named_constructor:
  "\<exists>idx. generateIndex (\<lambda>p. Inr ''function f() {}'') (\<lambda>d. None) [''constructor/a.js''] = Returns idx
         \<and> totalFiles idx = 1 \<and> fileTree idx = [] \<and> leaves (Dir (fileTree idx)) = 0
         \<and> map fst (files_m idx) = [''constructor/a.js'']"
  by (simp add: generateIndex_def buildFileTree_def object_prototype_functions_def
        extract_example set_prop_def)

section \<open>The scanning loops terminate\<close>

text \<open>
  A match of a regular expression consumes at least \<open>min_len\<close> characters, so a loop over
  the matches of a regular expression that cannot match the empty string ends.
\<close>

lemma step_if_consumes: "st' \<in> set (step_if P st) \<Longrightarrow> Suc (length (rest st')) \<le> length (rest st)"
  by (cases "rest st") (auto simp: step_if_def split: if_splits)

lemma m_consumes: "st' \<in> set (m r st) \<Longrightarrow> length (rest st') + min_len r \<le> length (rest st)"
proof (induction r st arbitrary: st' rule: m.induct)
  case (1 c st)
  then have "st' \<in> set (step_if (\<lambda>x. x = c) st)" by simp
  from step_if_consumes [OF this] show ?case by simp
next
  case (2 st)
  then have "st' \<in> set (step_if (\<lambda>x. \<not> line_terminator x) st)" by simp
  from step_if_consumes [OF this] show ?case by simp
next
  case (3 pos items st)
  then have "st' \<in> set (step_if (\<lambda>x. pos = (\<exists>i \<in> set items. citem_has i x)) st)" by simp
  from step_if_consumes [OF this] show ?case by simp
next
  case (4 st)
  then show ?case by simp
next
  case (5 a b st)
  from "5.prems" obtain st1 where a: "st1 \<in> set (m a st)" and b: "st' \<in> set (m b st1)" by auto
  from "5.IH"(1) [OF a] "5.IH"(2) [OF a b] show ?case by simp
next
  case (6 a b st)
  from "6.prems" have "st' \<in> set (m a st) \<or> st' \<in> set (m b st)" by simp
  then show ?case using "6.IH"(1) [of st'] "6.IH"(2) [of st'] by auto
next
  case (7 r st)
  show ?case
  proof (cases "st' = st")
    case True
    then show ?thesis by simp
  next
    case False
    have eq: "m (Star r) st = concat (map (\<lambda>st'. if length (rest st') < length (rest st)
        then m (Star r) st' else []) (m r st)) @ [st]"
      by (rule m.simps)
    from "7.prems" have "st' \<in> set (concat (map (\<lambda>st'. if length (rest st') < length (rest st)
        then m (Star r) st' else []) (m r st)) @ [st])"
      by (subst (asm) eq)
    with False obtain st1 where a: "st1 \<in> set (m r st)"
      and lt: "length (rest st1) < length (rest st)" and b: "st' \<in> set (m (Star r) st1)"
      by (auto simp del: m.simps split: if_splits)
    from "7.IH"(2) [OF a lt b] lt show ?thesis by simp
  qed
next
  case (8 r st)
  show ?case
  proof (cases "st' = st")
    case True
    then show ?thesis by simp
  next
    case False
    have eq: "m (LazyStar r) st = st # concat (map (\<lambda>st'. if length (rest st') < length (rest st)
        then m (LazyStar r) st' else []) (m r st))"
      by (rule m.simps)
    from "8.prems" have "st' \<in> set (st # concat (map (\<lambda>st'. if length (rest st') < length (rest st)
        then m (LazyStar r) st' else []) (m r st)))"
      by (subst (asm) eq)
    with False obtain st1 where a: "st1 \<in> set (m r st)"
      and lt: "length (rest st1) < length (rest st)" and b: "st' \<in> set (m (LazyStar r) st1)"
      by (auto simp del: m.simps split: if_splits)
    from "8.IH"(2) [OF a lt b] lt show ?thesis by simp
  qed
next
  case (9 n r st)
  from "9.prems" obtain st1 where a: "st1 \<in> set (m r st)" and "rest st' = rest st1" by auto
  with "9.IH" [OF a] show ?case by simp
next
  case (10 st)
  then show ?case by (simp split: option.splits if_splits)
next
  case (11 st)
  then show ?case by (simp split: list.splits if_splits)
qed

lemma search_consumes:
  "search r p s = Some (mt, st) \<Longrightarrow> length (rest st) + min_len r \<le> length s"
proof (induction r p s rule: search.induct)
  case (1 r p s)
  show ?case
  proof (cases "m r \<lparr> prev = p, rest = s, caps = [] \<rparr>")
    case Nil
    with "1.prems" obtain c cs where s: "s = c # cs" and "search r (Some c) cs = Some (mt, st)"
      by (auto simp: search.simps [of r p s] split: list.splits)
    with "1.IH" [OF Nil s] show ?thesis by simp
  next
    case (Cons st0 sts)
    with "1.prems" have "st = st0" by (simp add: search.simps [of r p s])
    with Cons have "st \<in> set (m r \<lparr> prev = p, rest = s, caps = [] \<rparr>)" by simp
    from m_consumes [OF this] show ?thesis by simp
  qed
qed

lemma and_then_settles:
  "settles x \<Longrightarrow> (\<And>v. x = Returns v \<Longrightarrow> settles (f v)) \<Longrightarrow> settles (and_then x f)"
  by (cases x) simp_all

lemma while_exec_settles:
  "0 < min_len regex \<Longrightarrow> (\<And>mt a. settles (body mt a)) \<Longrightarrow>
   settles (while_exec regex body p s acc)"
proof (induction regex body p s acc rule: while_exec.induct)
  case (1 regex body p s acc)
  show ?case
  proof (cases "search regex p s")
    case None
    then show ?thesis by (simp add: while_exec.simps [of regex body p s acc])
  next
    case (Some found)
    obtain mt st where found: "found = (mt, st)" by (cases found)
    have "length (rest st) + min_len regex \<le> length s"
      using Some found by (intro search_consumes [of regex p s mt]) simp
    with "1.prems"(1) have lt: "length (rest st) < length s" by linarith
    have rec: "settles (while_exec regex body (prev st) (rest st) a)" if "body mt acc = Returns a" for a
      using Some found that lt "1.prems"(1)
      by (intro "1.IH" [of found mt st a] "1.prems"(2)) simp_all
    have "settles (and_then (body mt acc) (\<lambda>acc'. while_exec regex body (prev st) (rest st) acc'))"
      using "1.prems"(2) [of mt acc] rec by (rule and_then_settles)
    then show ?thesis
      using Some found lt by (simp add: while_exec.simps [of regex body p s acc])
  qed
qed

section \<open>The scanning loops as folds over the matches\<close>

text \<open>
  A group that is not optional is defined in every match, and a loop whose body returns
  on every match is a fold over the list of the matches.
\<close>

lemma step_if_caps: "st' \<in> set (step_if P st) \<Longrightarrow> caps st' = caps st"
  by (cases "rest st") (auto simp: step_if_def split: if_splits)

lemma m_groups:
  "st' \<in> set (m r st) \<Longrightarrow> fst ` set (caps st) \<union> set (always r) \<subseteq> fst ` set (caps st')"
proof (induction r st arbitrary: st' rule: m.induct)
  case (1 c st)
  then have "st' \<in> set (step_if (\<lambda>x. x = c) st)" by simp
  from step_if_caps [OF this] show ?case by simp
next
  case (2 st)
  then have "st' \<in> set (step_if (\<lambda>x. \<not> line_terminator x) st)" by simp
  from step_if_caps [OF this] show ?case by simp
next
  case (3 pos items st)
  then have "st' \<in> set (step_if (\<lambda>x. pos = (\<exists>i \<in> set items. citem_has i x)) st)" by simp
  from step_if_caps [OF this] show ?case by simp
next
  case (4 st)
  then show ?case by simp
next
  case (5 a b st)
  from "5.prems" obtain st1 where a: "st1 \<in> set (m a st)" and b: "st' \<in> set (m b st1)" by auto
  from "5.IH"(1) [OF a] "5.IH"(2) [OF a b] show ?case
    by (simp only: always.simps set_append) blast
next
  case (6 a b st)
  from "6.prems" have "st' \<in> set (m a st) \<or> st' \<in> set (m b st)" by simp
  then show ?case using "6.IH"(1) [of st'] "6.IH"(2) [of st']
    by (simp only: always.simps set_filter) blast
next
  case (7 r st)
  show ?case
  proof (cases "st' = st")
    case True
    then show ?thesis by simp
  next
    case False
    have eq: "m (Star r) st = concat (map (\<lambda>st'. if length (rest st') < length (rest st)
        then m (Star r) st' else []) (m r st)) @ [st]"
      by (rule m.simps)
    from "7.prems" have "st' \<in> set (concat (map (\<lambda>st'. if length (rest st') < length (rest st)
        then m (Star r) st' else []) (m r st)) @ [st])"
      by (subst (asm) eq)
    with False obtain st1 where a: "st1 \<in> set (m r st)"
      and lt: "length (rest st1) < length (rest st)" and b: "st' \<in> set (m (Star r) st1)"
      by (auto simp del: m.simps split: if_splits)
    from "7.IH"(1) [OF a] "7.IH"(2) [OF a lt b] show ?thesis
      by (simp only: always.simps list.set) blast
  qed
next
  case (8 r st)
  show ?case
  proof (cases "st' = st")
    case True
    then show ?thesis by simp
  next
    case False
    have eq: "m (LazyStar r) st = st # concat (map (\<lambda>st'. if length (rest st') < length (rest st)
        then m (LazyStar r) st' else []) (m r st))"
      by (rule m.simps)
    from "8.prems" have "st' \<in> set (st # concat (map (\<lambda>st'. if length (rest st') < length (rest st)
        then m (LazyStar r) st' else []) (m r st)))"
      by (subst (asm) eq)
    with False obtain st1 where a: "st1 \<in> set (m r st)"
      and lt: "length (rest st1) < length (rest st)" and b: "st' \<in> set (m (LazyStar r) st1)"
      by (auto simp del: m.simps split: if_splits)
    from "8.IH"(1) [OF a] "8.IH"(2) [OF a lt b] show ?thesis
      by (simp only: always.simps list.set) blast
  qed
next
  case (9 n r st)
  from "9.prems" obtain st1 where a: "st1 \<in> set (m r st)"
    and c: "caps st' = (n, take (length (rest st) - length (rest st1)) (rest st)) # caps st1"
    by auto
  have "fst ` set (caps st') = insert n (fst ` set (caps st1))"
    by (simp add: c)
  with "9.IH" [OF a] show ?case
    by (simp only: always.simps list.set) blast
next
  case (10 st)
  then show ?case by (simp split: option.splits if_splits)
next
  case (11 st)
  then show ?case by (simp split: list.splits if_splits)
qed

lemma search_groups:
  "search r p s = Some (mt, st) \<Longrightarrow> n \<in> set (always r) \<Longrightarrow> \<exists>t. cap n mt = Str t"
proof (induction r p s rule: search.induct)
  case (1 r p s)
  show ?case
  proof (cases "m r \<lparr> prev = p, rest = s, caps = [] \<rparr>")
    case Nil
    with "1.prems" obtain c cs where s: "s = c # cs" and "search r (Some c) cs = Some (mt, st)"
      by (auto simp: search.simps [of r p s] split: list.splits)
    with "1.IH" [OF Nil s] "1.prems"(2) show ?thesis by simp
  next
    case (Cons st0 sts)
    with "1.prems" have st: "st = st0" and mt: "groups mt = caps st0"
      by (auto simp: search.simps [of r p s])
    with Cons have "st \<in> set (m r \<lparr> prev = p, rest = s, caps = [] \<rparr>)" by simp
    from m_groups [OF this] "1.prems"(2) have "n \<in> fst ` set (groups mt)"
      by (auto simp: st mt)
    then obtain t where "map_of (groups mt) n = Some t"
      by (metis domD dom_map_of_conv_image_fst)
    then show ?thesis by (simp add: cap_def)
  qed
qed

lemma matches_from_groups:
  "mt \<in> set (matches_from r p s) \<Longrightarrow> n \<in> set (always r) \<Longrightarrow> \<exists>t. cap n mt = Str t"
proof (induction r p s rule: matches_from.induct)
  case (1 regex p s)
  show ?case
  proof (cases "search regex p s")
    case None
    with "1.prems" show ?thesis by (simp add: matches_from.simps [of regex p s])
  next
    case (Some found)
    obtain mt0 st where found: "found = (mt0, st)" by (cases found)
    show ?thesis
    proof (cases "mt = mt0")
      case True
      with search_groups [of regex p s mt0 st n] Some found "1.prems"(2) show ?thesis by simp
    next
      case False
      with "1.prems"(1) Some found have lt: "length (rest st) < length s"
        and "mt \<in> set (matches_from regex (prev st) (rest st))"
        by (auto simp: matches_from.simps [of regex p s] split: if_splits)
      with "1.IH" [OF Some found [symmetric] lt] "1.prems"(2) show ?thesis by simp
    qed
  qed
qed

lemma while_exec_fold:
  "0 < min_len regex \<Longrightarrow>
   (\<And>mt a. mt \<in> set (matches_from regex p s) \<Longrightarrow> body mt a = Returns (upd mt a)) \<Longrightarrow>
   while_exec regex body p s acc = Returns (fold upd (matches_from regex p s) acc)"
proof (induction regex body p s acc rule: while_exec.induct)
  case (1 regex body p s acc)
  show ?case
  proof (cases "search regex p s")
    case None
    then show ?thesis
      by (simp add: while_exec.simps [of regex body p s acc] matches_from.simps [of regex p s])
  next
    case (Some found)
    obtain mt st where found: "found = (mt, st)" by (cases found)
    have "length (rest st) + min_len regex \<le> length s"
      using Some found by (intro search_consumes [of regex p s mt]) simp
    with "1.prems"(1) have lt: "length (rest st) < length s" by linarith
    have ms: "matches_from regex p s = mt # matches_from regex (prev st) (rest st)"
      using Some found lt by (simp add: matches_from.simps [of regex p s])
    have first: "body mt acc = Returns (upd mt acc)"
      by (rule "1.prems"(2)) (simp add: ms)
    have "while_exec regex body (prev st) (rest st) (upd mt acc) =
        Returns (fold upd (matches_from regex (prev st) (rest st)) (upd mt acc))"
      using Some found first lt "1.prems"(1)
      by (intro "1.IH" [of found mt st "upd mt acc"] "1.prems"(2)) (simp_all add: ms)
    then show ?thesis
      using Some found lt first ms by (simp add: while_exec.simps [of regex body p s acc])
  qed
qed

lemma scan_fold:
  "0 < min_len regex \<Longrightarrow>
   (\<And>mt a. mt \<in> set (all_matches regex content) \<Longrightarrow> body mt a = Returns (upd mt a)) \<Longrightarrow>
   scan regex content body acc = Returns (fold upd (all_matches regex content) acc)"
  unfolding scan_def all_matches_def by (rule while_exec_fold)

section \<open>Properties of extraction\<close>

lemmas regex_defs = js_regex_defs
  py_importRegex_def py_funcRegex_def py_classRegex_def py_constRegex_def
  java_importRegex_def java_visibility_def java_classRegex_def java_interfaceRegex_def
  java_methodRegex_def c_includeRegex_def c_funcRegex_def c_defineRegex_def
  cs_usingRegex_def cs_visibility_def cs_classRegex_def cs_interfaceRegex_def cs_methodRegex_def
  go_importRegex_def go_funcRegex_def go_constRegex_def
  rust_useRegex_def rust_funcRegex_def rust_constRegex_def

lemma regexes_consume:
  "0 < min_len js_importRegex" "0 < min_len js_requireRegex" "0 < min_len js_exportRegex"
  "0 < min_len js_funcRegex" "0 < min_len js_arrowFuncRegex" "0 < min_len js_classRegex"
  "0 < min_len js_interfaceRegex" "0 < min_len js_typeRegex" "0 < min_len js_constRegex"
  "0 < min_len py_importRegex" "0 < min_len py_funcRegex" "0 < min_len py_classRegex"
  "0 < min_len py_constRegex"
  "0 < min_len java_importRegex" "0 < min_len java_classRegex" "0 < min_len java_interfaceRegex"
  "0 < min_len java_methodRegex"
  "0 < min_len c_includeRegex" "0 < min_len c_funcRegex" "0 < min_len c_defineRegex"
  "0 < min_len cs_usingRegex" "0 < min_len cs_classRegex" "0 < min_len cs_interfaceRegex"
  "0 < min_len cs_methodRegex"
  "0 < min_len go_importRegex" "0 < min_len go_funcRegex" "0 < min_len go_constRegex"
  "0 < min_len rust_useRegex" "0 < min_len rust_funcRegex" "0 < min_len rust_constRegex"
  by (simp_all add: regex_defs)

lemma scan_settles:
  "0 < min_len regex \<Longrightarrow> (\<And>mt a. settles (body mt a)) \<Longrightarrow> settles (scan regex content body acc)"
  unfolding scan_def by (rule while_exec_settles)

lemma in_turn_settles:
  "(\<And>f a. f \<in> set fs \<Longrightarrow> settles (f a)) \<Longrightarrow> settles (in_turn fs acc)"
proof (induction fs arbitrary: acc)
  case Nil
  show ?case by simp
next
  case (Cons f fs)
  show ?case
    unfolding in_turn.simps
    by (rule and_then_settles) (simp_all add: Cons)
qed

lemma split_val_settles: "settles (split_val c v)"
  by (cases v) simp_all

lemma trim_val_settles: "settles (trim_val v)"
  by (cases v) simp_all

lemma body_settles:
  "settles (export_body mt a)" "settles (py_import_body mt a)" "settles (trimmed_import_body mt a)"
  "settles (method_body mt a)" "settles (c_func_body mt a)" "settles (go_import_body mt a)"
  by (auto simp: export_body_def py_import_body_def py_imported_def trimmed_import_body_def
        method_body_def c_func_body_def go_import_body_def go_imported_def Let_def
        intro!: and_then_settles split_val_settles trim_val_settles)

lemma extractors_settle:
  "settles (extractJavaScriptMetadata content)" "settles (extractPythonMetadata content)"
  "settles (extractJavaMetadata content)" "settles (extractCMetadata content)"
  "settles (extractCSharpMetadata content)" "settles (extractGoMetadata content)"
  "settles (extractRustMetadata content)" "settles (extractGenericMetadata content)"
  unfolding extractJavaScriptMetadata_def js_statement_scans_def js_declaration_scans_def
    extractPythonMetadata_def extractJavaMetadata_def
    extractCMetadata_def extractCSharpMetadata_def extractGoMetadata_def extractRustMetadata_def
    extractGenericMetadata_def
  by (auto intro!: and_then_settles in_turn_settles scan_settles regexes_consume body_settles)

lemma extract_by_extension_settles: "settles (extract_by_extension ext content)"
  by (simp add: extract_by_extension_def extractors_settle)

lemma extractFileMetadata_returns:
  "\<exists>md. extractFileMetadata readFileSync filePath = Returns md \<and> path md = filePath"
proof (cases "readFileSync filePath")
  case (Inl e)
  then show ?thesis by (simp add: extractFileMetadata_def)
next
  case (Inr content)
  from extract_by_extension_settles [of "extname filePath" content] show ?thesis
    by (cases "extract_by_extension (extname filePath) content")
       (simp_all add: extractFileMetadata_def Inr Let_def spread_def)
qed

lemma map_of_set_prop:
  "map_of (set_prop k v obj) k' =
     (if k = ''__proto__'' then map_of obj k' else if k' = k then Some v else map_of obj k')"
  by (simp add: set_prop_def update_conv')

lemma extract_each_returns:
  "\<exists>fm. extract_each readFileSync files fm0 = Returns fm
        \<and> (\<forall>f. map_of fm f =
               (if f \<in> set files \<and> f \<noteq> ''__proto__''
                then (case extractFileMetadata readFileSync f of Returns md \<Rightarrow> Some md | _ \<Rightarrow> None)
                else map_of fm0 f))"
proof (induction files arbitrary: fm0)
  case Nil
  show ?case by simp
next
  case (Cons g gs)
  obtain md where md: "extractFileMetadata readFileSync g = Returns md" "path md = g"
    using extractFileMetadata_returns by blast
  from Cons.IH [of "set_prop g md fm0"] obtain fm where
    fm: "extract_each readFileSync gs (set_prop g md fm0) = Returns fm"
    and look: "\<And>f. map_of fm f =
        (if f \<in> set gs \<and> f \<noteq> ''__proto__''
         then (case extractFileMetadata readFileSync f of Returns md \<Rightarrow> Some md | _ \<Rightarrow> None)
         else map_of (set_prop g md fm0) f)"
    by blast
  have "extract_each readFileSync (g # gs) fm0 = Returns fm"
    using md fm by simp
  moreover have "map_of fm f =
        (if f \<in> set (g # gs) \<and> f \<noteq> ''__proto__''
         then (case extractFileMetadata readFileSync f of Returns md \<Rightarrow> Some md | _ \<Rightarrow> None)
         else map_of fm0 f)" for f
    using md by (simp add: look map_of_set_prop)
  ultimately show ?case by blast
qed

lemma extractFileMetadata_shape:
  "\<exists>md. extractFileMetadata readFileSync filePath = Returns md
        \<and> path md = filePath \<and> extension md = extname filePath
        \<and> (error md = None \<or>
             md = \<lparr> imports_m = None, exports_m = None, functions_m = None, classes_m = None,
                    interfaces_m = None, constants_m = None, types_m = None, lineCount = None,
                    hasComments = None,
                    path = filePath, extension = extname filePath, size_m = None,
                    error = error md \<rparr>)"
proof (cases "readFileSync filePath")
  case (Inl e)
  then show ?thesis by (simp add: extractFileMetadata_def)
next
  case (Inr content)
  from extract_by_extension_settles [of "extname filePath" content] show ?thesis
    by (cases "extract_by_extension (extname filePath) content")
       (simp_all add: extractFileMetadata_def Inr Let_def spread_def)
qed

text \<open>
  Claim C3. When reading a file raises an error, \<open>extractFileMetadata\<close> returns a record
  with the path, the extension and the message of the error and no other property; it
  returns for every file, and a record with an error never has another property. Given
  that the tree can be built, \<open>generateIndex\<close> goes through all the files whatever the
  errors of reading, records each of them, and only the write of the document decides
  whether it returns or throws.
\<close>

theorem C3_extraction_errors_do_not_abort:
  "(\<forall>filePath e. readFileSync filePath = Inl e \<longrightarrow>
       extractFileMetadata readFileSync filePath =
         Returns \<lparr> imports_m = None, exports_m = None, functions_m = None, classes_m = None,
                   interfaces_m = None, constants_m = None, types_m = None, lineCount = None,
                   hasComments = None,
                   path = filePath, extension = extname filePath, size_m = None,
                   error = Some (message e) \<rparr>)
   \<and> (\<forall>filePath. \<exists>md. extractFileMetadata readFileSync filePath = Returns md
          \<and> (error md = None \<or>
               md = \<lparr> imports_m = None, exports_m = None, functions_m = None, classes_m = None,
                      interfaces_m = None, constants_m = None, types_m = None, lineCount = None,
                      hasComments = None,
                      path = filePath, extension = extname filePath, size_m = None,
                      error = error md \<rparr>))
   \<and> (\<forall>tree. buildFileTree files = Returns tree \<longrightarrow>
         (\<exists>idx. generateIndex readFileSync writeFileSync files =
                  (case writeFileSync idx of None \<Rightarrow> Returns idx | Some e \<Rightarrow> Throws e)
              \<and> fileTree idx = tree \<and> totalFiles idx = length files
              \<and> (\<forall>f \<in> set files. f \<noteq> ''__proto__'' \<longrightarrow>
                    (\<exists>md. map_of (files_m idx) f = Some md
                        \<and> extractFileMetadata readFileSync f = Returns md))))"
proof (intro conjI allI impI)
  fix filePath e
  assume "readFileSync filePath = Inl e"
  then show "extractFileMetadata readFileSync filePath =
         Returns \<lparr> imports_m = None, exports_m = None, functions_m = None, classes_m = None,
                   interfaces_m = None, constants_m = None, types_m = None, lineCount = None,
                   hasComments = None,
                   path = filePath, extension = extname filePath, size_m = None,
                   error = Some (message e) \<rparr>"
    by (simp add: extractFileMetadata_def)
next
  fix filePath
  from extractFileMetadata_shape [of readFileSync filePath]
  show "\<exists>md. extractFileMetadata readFileSync filePath = Returns md
          \<and> (error md = None \<or>
               md = \<lparr> imports_m = None, exports_m = None, functions_m = None, classes_m = None,
                      interfaces_m = None, constants_m = None, types_m = None, lineCount = None,
                      hasComments = None,
                      path = filePath, extension = extname filePath, size_m = None,
                      error = error md \<rparr>)"
    by blast
next
  fix tree
  assume tree: "buildFileTree files = Returns tree"
  obtain fm where fm: "extract_each readFileSync files [] = Returns fm"
    and look: "\<And>f. map_of fm f =
        (if f \<in> set files \<and> f \<noteq> ''__proto__''
         then (case extractFileMetadata readFileSync f of Returns md \<Rightarrow> Some md | _ \<Rightarrow> None)
         else map_of [] f)"
    using extract_each_returns [of readFileSync files "[]"] by blast
  let ?idx = "\<lparr> totalFiles = length files, fileTree = tree, files_m = fm,
                 summary_m = generateSummary fm \<rparr>"
  have run: "generateIndex readFileSync writeFileSync files =
               (case writeFileSync ?idx of None \<Rightarrow> Returns ?idx | Some e \<Rightarrow> Throws e)"
    by (simp add: generateIndex_def tree fm Let_def)
  have each: "\<exists>md. map_of (files_m ?idx) f = Some md \<and> extractFileMetadata readFileSync f = Returns md"
    if "f \<in> set files" "f \<noteq> ''__proto__''" for f
  proof -
    obtain md where "extractFileMetadata readFileSync f = Returns md"
      using extractFileMetadata_returns by blast
    with that show ?thesis by (simp add: look)
  qed
  show "\<exists>idx. generateIndex readFileSync writeFileSync files =
                  (case writeFileSync idx of None \<Rightarrow> Returns idx | Some e \<Rightarrow> Throws e)
              \<and> fileTree idx = tree \<and> totalFiles idx = length files
              \<and> (\<forall>f \<in> set files. f \<noteq> ''__proto__'' \<longrightarrow>
                    (\<exists>md. map_of (files_m idx) f = Some md
                        \<and> extractFileMetadata readFileSync f = Returns md))"
    using run each by (intro exI [of _ ?idx]) simp
qed

theorem C3_extraction_errors_do_not_abort_witness:
  "example_readFileSync ''b.js'' = Inl (IOError ''EACCES'')
   \<and> extractFileMetadata example_readFileSync ''b.js'' =
         Returns \<lparr> imports_m = None, exports_m = None, functions_m = None, classes_m = None,
                   interfaces_m = None, constants_m = None, types_m = None, lineCount = None,
                   hasComments = None,
                   path = ''b.js'', extension = ''.js'', size_m = None,
                   error = Some ''EACCES'' \<rparr>
   \<and> buildFileTree [''b.js'', ''a.py''] = Returns [(''b.js'', File), (''a.py'', File)]
   \<and> (\<exists>idx. generateIndex example_readFileSync (\<lambda>d. None) [''b.js'', ''a.py''] = Returns idx
          \<and> totalFiles idx = 2
          \<and> (\<exists>md. map_of (files_m idx) ''a.py'' = Some md
                  \<and> extractFileMetadata example_readFileSync ''a.py'' = Returns md))"
proof -
  have read: "example_readFileSync ''b.js'' = Inl (IOError ''EACCES'')"
    by (simp add: example_readFileSync_def)
  have tree: "buildFileTree [''b.js'', ''a.py''] = Returns [(''b.js'', File), (''a.py'', File)]"
    by (simp add: buildFileTree_def set_prop_def)
  note inst = C3_extraction_errors_do_not_abort [of example_readFileSync "[''b.js'', ''a.py'']" "\<lambda>d. None"]
  from inst read have "extractFileMetadata example_readFileSync ''b.js'' =
         Returns \<lparr> imports_m = None, exports_m = None, functions_m = None, classes_m = None,
                   interfaces_m = None, constants_m = None, types_m = None, lineCount = None,
                   hasComments = None,
                   path = ''b.js'', extension = extname ''b.js'', size_m = None,
                   error = Some (message (IOError ''EACCES'')) \<rparr>"
    by blast
  moreover have "extname ''b.js'' = ''.js''"
    by (simp add: extname_def basename_part_def)
  moreover from inst tree have "\<exists>idx. generateIndex example_readFileSync (\<lambda>d. None) [''b.js'', ''a.py''] = Returns idx
          \<and> totalFiles idx = 2
          \<and> (\<exists>md. map_of (files_m idx) ''a.py'' = Some md
                  \<and> extractFileMetadata example_readFileSync ''a.py'' = Returns md)"
    by fastforce
  ultimately show ?thesis using read tree by simp
qed

section \<open>Properties of the summary\<close>

lemma summary_step_pair:
  "summary_step (filePath, md) (s, fileSizes) =
     (s\<lparr> totalFunctions := totalFunctions s + length_of (functions_m md),
         totalClasses := totalClasses s + length_of (classes_m md),
         totalInterfaces := totalInterfaces s + length_of (interfaces_m md),
         totalConstants := totalConstants s + length_of (constants_m md),
         filesByExtension := bump (ext_or_unknown md) (filesByExtension s) \<rparr>,
      fileSizes @ sized_entries [(filePath, md)])"
  by (simp add: summary_step_def sized_entries_def split: option.splits)

lemma sized_entries_Cons:
  "sized_entries (entry # entries) = sized_entries [entry] @ sized_entries entries"
  by (simp add: sized_entries_def)

lemma fold_summary_step_sizes:
  "snd (fold summary_step entries (s, fileSizes)) = fileSizes @ sized_entries entries"
proof (induction entries arbitrary: s fileSizes)
  case Nil
  show ?case by (simp add: sized_entries_def)
next
  case (Cons entry entries)
  obtain filePath md where entry: "entry = (filePath, md)" by (cases entry)
  show ?case
    using sized_entries_Cons [of "(filePath, md)" entries]
    by (simp add: entry summary_step_pair Cons.IH)
qed


lemma largestFiles_generateSummary:
  "largestFiles (generateSummary fileMetadata) =
     ten_largest (sized_entries (object_entries fileMetadata))"
proof -
  obtain s fileSizes where run: "fold summary_step (object_entries fileMetadata)
             (\<lparr> totalFunctions = 0, totalClasses = 0, totalInterfaces = 0, totalConstants = 0,
                filesByExtension = [], largestFiles = [] \<rparr>, []) = (s, fileSizes)"
    by (cases "fold summary_step (object_entries fileMetadata)
             (\<lparr> totalFunctions = 0, totalClasses = 0, totalInterfaces = 0, totalConstants = 0,
                filesByExtension = [], largestFiles = [] \<rparr>, [])")
  have "snd (s, fileSizes) = [] @ sized_entries (object_entries fileMetadata)"
    unfolding run [symmetric] by (rule fold_summary_step_sizes)
  then have "fileSizes = sized_entries (object_entries fileMetadata)" by simp
  with run show ?thesis by (simp add: generateSummary_def)
qed


text \<open>Sorting by size, descending and stable.\<close>

lemma descending_stable_sort:
  fixes c :: "(string \<times> nat) list"
  defines "sorted_c \<equiv> sort_key (\<lambda>f. - int (snd f)) c"
  shows "sorted_wrt (\<lambda>a b. snd b \<le> snd a) sorted_c"
    and "filter (\<lambda>f. snd f = k) sorted_c = filter (\<lambda>f. snd f = k) c"
    and "length sorted_c = length c"
proof -
  have "sorted (map (\<lambda>f. - int (snd f)) sorted_c)"
    unfolding sorted_c_def by (rule sorted_sort_key)
  then show "sorted_wrt (\<lambda>a b. snd b \<le> snd a) sorted_c"
    by (simp add: sorted_wrt_map)
  have "filter (\<lambda>f. - int (snd f) = - int k) sorted_c = filter (\<lambda>f. - int (snd f) = - int k) c"
    unfolding sorted_c_def by (rule sort_key_stable)
  then show "filter (\<lambda>f. snd f = k) sorted_c = filter (\<lambda>f. snd f = k) c"
    by simp
  show "length sorted_c = length c"
    unfolding sorted_c_def by simp
qed

lemmas summary_eval = generateSummary_def object_entries_def array_index_def is_digit_def
  file_of_size_def summary_step_def ten_largest_def

text \<open>
  Claim C5, as stated, fails: a file of size 0 is one of the two files of the mapping
  below, and so one of its ten largest, but the guard \<open>if (metadata.size)\<close> keeps it out of
  \<open>largestFiles\<close>.
\<close>

theorem C5_counterexample_empty_file_not_ranked:
  "largestFiles (generateSummary [file_of_size ''a.js'' 5, file_of_size ''b.js'' 0])
     = [(''a.js'', 5)]
   \<and> spec_largestFiles [file_of_size ''a.js'' 5, file_of_size ''b.js'' 0]
     = [(''a.js'', 5), (''b.js'', 0)]"
  by (simp add: summary_eval spec_largestFiles_def sizes_of_def)

text \<open>
  Claim C5, amended. \<open>largestFiles\<close> is the first ten (or all, if fewer) of the entries with
  a size that is not 0, sorted by size, descending, entries of equal size in the order
  in which \<open>Object.entries\<close> lists them: it is the beginning of a list that is sorted
  by size, descending, and in which the entries of each size are those of the mapping
  in their order. Files of the sizes 10, 50, 5, 50 at the paths a, b, c, d give
  b(50), d(50), a(10), c(5).
\<close>

theorem C5_largest_files_ranking:
  "(\<exists>others.
       sorted_wrt (\<lambda>a b. snd b \<le> snd a) (largestFiles (generateSummary fileMetadata) @ others)
     \<and> (\<forall>k. filter (\<lambda>f. snd f = k) (largestFiles (generateSummary fileMetadata) @ others)
            = filter (\<lambda>f. snd f = k) (sized_entries (object_entries fileMetadata))))
   \<and> length (largestFiles (generateSummary fileMetadata))
       = min 10 (length (sized_entries (object_entries fileMetadata)))
   \<and> largestFiles (generateSummary
         [file_of_size ''a'' 10, file_of_size ''b'' 50, file_of_size ''c'' 5, file_of_size ''d'' 50])
       = [(''b'', 50), (''d'', 50), (''a'', 10), (''c'', 5)]"
proof -
  let ?c = "sized_entries (object_entries fileMetadata)"
  let ?sorted = "sort_key (\<lambda>f. - int (snd f)) ?c"
  have lf: "largestFiles (generateSummary fileMetadata) = take 10 ?sorted"
    by (simp add: largestFiles_generateSummary ten_largest_def)
  have whole: "largestFiles (generateSummary fileMetadata) @ drop 10 ?sorted = ?sorted"
    by (simp add: lf)
  have "sorted_wrt (\<lambda>a b. snd b \<le> snd a) (largestFiles (generateSummary fileMetadata) @ drop 10 ?sorted)
     \<and> (\<forall>k. filter (\<lambda>f. snd f = k) (largestFiles (generateSummary fileMetadata) @ drop 10 ?sorted)
            = filter (\<lambda>f. snd f = k) ?c)"
    unfolding whole using descending_stable_sort [where c = ?c] by blast
  then have first: "\<exists>others.
       sorted_wrt (\<lambda>a b. snd b \<le> snd a) (largestFiles (generateSummary fileMetadata) @ others)
     \<and> (\<forall>k. filter (\<lambda>f. snd f = k) (largestFiles (generateSummary fileMetadata) @ others)
            = filter (\<lambda>f. snd f = k) ?c)"
    by blast
  have second: "length (largestFiles (generateSummary fileMetadata)) = min 10 (length ?c)"
    by (simp add: lf min.commute)
  have third: "largestFiles (generateSummary
         [file_of_size ''a'' 10, file_of_size ''b'' 50, file_of_size ''c'' 5, file_of_size ''d'' 50])
       = [(''b'', 50), (''d'', 50), (''a'', 10), (''c'', 5)]"
    by (simp add: summary_eval)
  from first second third show ?thesis by blast
qed

section \<open>Properties of the document\<close>


















section \<open>What the extractors record\<close>

subsection \<open>The loops as folds over the matches\<close>

lemma fold_push_field:
  "fold (\<lambda>mt a. a\<lparr> imports_f := push (g mt) (imports_f a) \<rparr>) ms a
     = a\<lparr> imports_f := imports_f a @ map g ms \<rparr>"
  "fold (\<lambda>mt a. a\<lparr> functions_f := push (g mt) (functions_f a) \<rparr>) ms a
     = a\<lparr> functions_f := functions_f a @ map g ms \<rparr>"
  "fold (\<lambda>mt a. a\<lparr> classes_f := push (g mt) (classes_f a) \<rparr>) ms a
     = a\<lparr> classes_f := classes_f a @ map g ms \<rparr>"
  "fold (\<lambda>mt a. a\<lparr> interfaces_f := push (g mt) (interfaces_f a) \<rparr>) ms a
     = a\<lparr> interfaces_f := interfaces_f a @ map g ms \<rparr>"
  "fold (\<lambda>mt a. a\<lparr> constants_f := push (g mt) (constants_f a) \<rparr>) ms a
     = a\<lparr> constants_f := constants_f a @ map g ms \<rparr>"
  "fold (\<lambda>mt a. a\<lparr> types_f := push (g mt) (types_f a) \<rparr>) ms a
     = a\<lparr> types_f := types_f a @ map g ms \<rparr>"
  by (induction ms arbitrary: a; simp add: push_def)+

lemma fold_push_new_field:
  "fold (\<lambda>mt a. a\<lparr> imports_f := push_new (g mt) (imports_f a) \<rparr>) ms a
     = a\<lparr> imports_f := fold (\<lambda>mt. push_new (g mt)) ms (imports_f a) \<rparr>"
  "fold (\<lambda>mt a. a\<lparr> functions_f := push_new (g mt) (functions_f a) \<rparr>) ms a
     = a\<lparr> functions_f := fold (\<lambda>mt. push_new (g mt)) ms (functions_f a) \<rparr>"
  "fold (\<lambda>mt a. a\<lparr> classes_f := push_new (g mt) (classes_f a) \<rparr>) ms a
     = a\<lparr> classes_f := fold (\<lambda>mt. push_new (g mt)) ms (classes_f a) \<rparr>"
  "fold (\<lambda>mt a. a\<lparr> interfaces_f := push_new (g mt) (interfaces_f a) \<rparr>) ms a
     = a\<lparr> interfaces_f := fold (\<lambda>mt. push_new (g mt)) ms (interfaces_f a) \<rparr>"
  "fold (\<lambda>mt a. a\<lparr> constants_f := push_new (g mt) (constants_f a) \<rparr>) ms a
     = a\<lparr> constants_f := fold (\<lambda>mt. push_new (g mt)) ms (constants_f a) \<rparr>"
  "fold (\<lambda>mt a. a\<lparr> types_f := push_new (g mt) (types_f a) \<rparr>) ms a
     = a\<lparr> types_f := fold (\<lambda>mt. push_new (g mt)) ms (types_f a) \<rparr>"
  by (induction ms arbitrary: a; simp)+

lemma fold_append_imports:
  "fold (\<lambda>mt a. a\<lparr> imports_f := imports_f a @ g mt \<rparr>) ms a
     = a\<lparr> imports_f := imports_f a @ concat (map g ms) \<rparr>"
  by (induction ms arbitrary: a) simp_all

lemma fold_push_new:
  "\<exists>new. fold (\<lambda>mt. push_new (g mt)) ms xs = xs @ new \<and> distinct new \<and> set new \<inter> set xs = {}
         \<and> set new = g ` set ms - set xs"
proof (induction ms arbitrary: xs)
  case Nil
  show ?case by simp
next
  case (Cons mt ms)
  show ?case
  proof (cases "g mt \<in> set xs")
    case True
    with Cons.IH [of xs] show ?thesis by (auto simp: push_new_def)
  next
    case False
    from Cons.IH [of "xs @ [g mt]"] obtain new where
      new: "fold (\<lambda>mt. push_new (g mt)) ms (xs @ [g mt]) = (xs @ [g mt]) @ new"
        "distinct new" "set new \<inter> set (xs @ [g mt]) = {}"
        "set new = g ` set ms - set (xs @ [g mt])"
      by blast
    have "fold (\<lambda>mt. push_new (g mt)) (mt # ms) xs = xs @ (g mt # new)"
      using False new(1) by (simp add: push_new_def push_def)
    moreover have "distinct (g mt # new)" using new(2,3) by auto
    moreover have "set (g mt # new) \<inter> set xs = {}" using new(3) False by auto
    moreover have "set (g mt # new) = g ` set (mt # ms) - set xs" using new(4) False by auto
    ultimately show ?thesis by blast
  qed
qed

lemma py_groups: "2 \<in> set (always py_importRegex)"
  "1 \<in> set (always java_importRegex)" "1 \<in> set (always cs_usingRegex)"
  "1 \<in> set (always rust_useRegex)"
  by (simp_all add: regex_defs)

lemma in_turn_Cons_returns:
  "f acc = Returns acc' \<Longrightarrow> in_turn (f # fs) acc = in_turn fs acc'"
  by simp

lemma py_import_scan:
  shows "scan py_importRegex content py_import_body acc =
     Returns (acc\<lparr> imports_f := imports_f acc @
        concat (map (\<lambda>mt. returned (py_imported mt)) (all_matches py_importRegex content)) \<rparr>)"
  and "\<forall>mt \<in> set (all_matches py_importRegex content). \<exists>vs. py_imported mt = Returns vs"
proof -
  have ret: "\<exists>vs. py_imported mt = Returns vs" if "mt \<in> set (all_matches py_importRegex content)" for mt
  proof -
    from matches_from_groups [OF that [unfolded all_matches_def] py_groups(1)]
    obtain t where "cap 2 mt = Str t" by blast
    then show ?thesis by (simp add: py_imported_def)
  qed
  then show "\<forall>mt \<in> set (all_matches py_importRegex content). \<exists>vs. py_imported mt = Returns vs"
    by blast
  have "scan py_importRegex content py_import_body acc =
      Returns (fold (\<lambda>mt a. a\<lparr> imports_f := imports_f a @ returned (py_imported mt) \<rparr>)
                 (all_matches py_importRegex content) acc)"
  proof (rule scan_fold)
    show "0 < min_len py_importRegex" by (rule regexes_consume)
    fix mt a
    assume "mt \<in> set (all_matches py_importRegex content)"
    from ret [OF this] obtain vs where "py_imported mt = Returns vs" by blast
    then show "py_import_body mt a = Returns (a\<lparr> imports_f := imports_f a @ returned (py_imported mt) \<rparr>)"
      by (simp add: py_import_body_def returned_def)
  qed
  then show "scan py_importRegex content py_import_body acc =
     Returns (acc\<lparr> imports_f := imports_f acc @
        concat (map (\<lambda>mt. returned (py_imported mt)) (all_matches py_importRegex content)) \<rparr>)"
    by (simp only: fold_append_imports)
qed

lemma push_scan:
  assumes "0 < min_len regex"
  shows "scan regex content (\<lambda>mt a. Returns (a\<lparr> imports_f := push (g mt) (imports_f a) \<rparr>)) acc =
           Returns (acc\<lparr> imports_f := imports_f acc @ map g (all_matches regex content) \<rparr>)"
    and "scan regex content (\<lambda>mt a. Returns (a\<lparr> functions_f := push (g mt) (functions_f a) \<rparr>)) acc =
           Returns (acc\<lparr> functions_f := functions_f acc @ map g (all_matches regex content) \<rparr>)"
    and "scan regex content (\<lambda>mt a. Returns (a\<lparr> classes_f := push (g mt) (classes_f a) \<rparr>)) acc =
           Returns (acc\<lparr> classes_f := classes_f acc @ map g (all_matches regex content) \<rparr>)"
    and "scan regex content (\<lambda>mt a. Returns (a\<lparr> interfaces_f := push (g mt) (interfaces_f a) \<rparr>)) acc =
           Returns (acc\<lparr> interfaces_f := interfaces_f acc @ map g (all_matches regex content) \<rparr>)"
    and "scan regex content (\<lambda>mt a. Returns (a\<lparr> constants_f := push (g mt) (constants_f a) \<rparr>)) acc =
           Returns (acc\<lparr> constants_f := constants_f acc @ map g (all_matches regex content) \<rparr>)"
    and "scan regex content (\<lambda>mt a. Returns (a\<lparr> types_f := push (g mt) (types_f a) \<rparr>)) acc =
           Returns (acc\<lparr> types_f := types_f acc @ map g (all_matches regex content) \<rparr>)"
  by (simp_all add: scan_fold [OF assms] fold_push_field)

lemma push_new_scan:
  assumes "0 < min_len regex"
  shows "scan regex content (\<lambda>mt a. Returns (a\<lparr> imports_f := push_new (g mt) (imports_f a) \<rparr>)) acc =
           Returns (acc\<lparr> imports_f := fold (\<lambda>mt. push_new (g mt)) (all_matches regex content) (imports_f acc) \<rparr>)"
    and "scan regex content (\<lambda>mt a. Returns (a\<lparr> functions_f := push_new (g mt) (functions_f a) \<rparr>)) acc =
           Returns (acc\<lparr> functions_f := fold (\<lambda>mt. push_new (g mt)) (all_matches regex content) (functions_f acc) \<rparr>)"
    and "scan regex content (\<lambda>mt a. Returns (a\<lparr> classes_f := push_new (g mt) (classes_f a) \<rparr>)) acc =
           Returns (acc\<lparr> classes_f := fold (\<lambda>mt. push_new (g mt)) (all_matches regex content) (classes_f acc) \<rparr>)"
    and "scan regex content (\<lambda>mt a. Returns (a\<lparr> interfaces_f := push_new (g mt) (interfaces_f a) \<rparr>)) acc =
           Returns (acc\<lparr> interfaces_f := fold (\<lambda>mt. push_new (g mt)) (all_matches regex content) (interfaces_f acc) \<rparr>)"
    and "scan regex content (\<lambda>mt a. Returns (a\<lparr> constants_f := push_new (g mt) (constants_f a) \<rparr>)) acc =
           Returns (acc\<lparr> constants_f := fold (\<lambda>mt. push_new (g mt)) (all_matches regex content) (constants_f acc) \<rparr>)"
    and "scan regex content (\<lambda>mt a. Returns (a\<lparr> types_f := push_new (g mt) (types_f a) \<rparr>)) acc =
           Returns (acc\<lparr> types_f := fold (\<lambda>mt. push_new (g mt)) (all_matches regex content) (types_f acc) \<rparr>)"
  by (simp_all add: scan_fold [OF assms] fold_push_new_field)

lemma extractPythonMetadata_is:
  "extractPythonMetadata content =
     Returns (no_fragment
       \<lparr> imports_m := Some (concat (map (\<lambda>mt. returned (py_imported mt))
                                     (all_matches py_importRegex content))),
         functions_m := Some (map (cap 1) (all_matches py_funcRegex content)),
         classes_m := Some (map (cap 1) (all_matches py_classRegex content)),
         constants_m := Some (map (cap 1) (all_matches py_constRegex content)) \<rparr>)"
  by (simp add: extractPythonMetadata_def py_import_scan push_scan regexes_consume nothing_found_def)

lemma fold_push_if_functions:
  "fold (\<lambda>mt a. if P mt then a\<lparr> functions_f := push (g mt) (functions_f a) \<rparr> else a) ms a
     = a\<lparr> functions_f := functions_f a @ map g (filter P ms) \<rparr>"
  by (induction ms arbitrary: a) (simp_all add: push_def)

lemma method_scan:
  assumes "0 < min_len regex"
  shows "scan regex content method_body acc =
           Returns (acc\<lparr> functions_f := functions_f acc @
              map (cap 1) (filter (\<lambda>mt. cap 1 mt \<noteq> Str ''class'' \<and> cap 1 mt \<noteq> Str ''interface'')
                             (all_matches regex content)) \<rparr>)"
    and "scan regex content c_func_body acc =
           Returns (acc\<lparr> functions_f := functions_f acc @
              map (cap 1) (filter (\<lambda>mt. cap 1 mt \<noteq> Str ''if'' \<and> cap 1 mt \<noteq> Str ''while''
                                        \<and> cap 1 mt \<noteq> Str ''for'')
                             (all_matches regex content)) \<rparr>)"
proof -
  have "scan regex content method_body acc =
      Returns (fold (\<lambda>mt a. if cap 1 mt \<noteq> Str ''class'' \<and> cap 1 mt \<noteq> Str ''interface''
                             then a\<lparr> functions_f := push (cap 1 mt) (functions_f a) \<rparr> else a)
                 (all_matches regex content) acc)"
    by (rule scan_fold [OF assms]) (simp add: method_body_def)
  then show "scan regex content method_body acc =
           Returns (acc\<lparr> functions_f := functions_f acc @
              map (cap 1) (filter (\<lambda>mt. cap 1 mt \<noteq> Str ''class'' \<and> cap 1 mt \<noteq> Str ''interface'')
                             (all_matches regex content)) \<rparr>)"
    by (simp only: fold_push_if_functions)
  have "scan regex content c_func_body acc =
      Returns (fold (\<lambda>mt a. if cap 1 mt \<noteq> Str ''if'' \<and> cap 1 mt \<noteq> Str ''while''
                                \<and> cap 1 mt \<noteq> Str ''for''
                             then a\<lparr> functions_f := push (cap 1 mt) (functions_f a) \<rparr> else a)
                 (all_matches regex content) acc)"
    by (rule scan_fold [OF assms]) (simp add: c_func_body_def)
  then show "scan regex content c_func_body acc =
           Returns (acc\<lparr> functions_f := functions_f acc @
              map (cap 1) (filter (\<lambda>mt. cap 1 mt \<noteq> Str ''if'' \<and> cap 1 mt \<noteq> Str ''while''
                                        \<and> cap 1 mt \<noteq> Str ''for'')
                             (all_matches regex content)) \<rparr>)"
    by (simp only: fold_push_if_functions)
qed

lemma trimmed_import_scan:
  assumes pos: "0 < min_len regex" and grp: "1 \<in> set (always regex)"
  shows "scan regex content trimmed_import_body acc =
     Returns (acc\<lparr> imports_f := imports_f acc @
        map (\<lambda>mt. returned_val (trim_val (cap 1 mt))) (all_matches regex content) \<rparr>)"
    and "\<forall>mt \<in> set (all_matches regex content). \<exists>v. trim_val (cap 1 mt) = Returns v"
proof -
  have ret: "\<exists>v. trim_val (cap 1 mt) = Returns v" if "mt \<in> set (all_matches regex content)" for mt
  proof -
    from matches_from_groups [OF that [unfolded all_matches_def] grp]
    obtain t where "cap 1 mt = Str t" by blast
    then show ?thesis by simp
  qed
  then show "\<forall>mt \<in> set (all_matches regex content). \<exists>v. trim_val (cap 1 mt) = Returns v"
    by blast
  have "scan regex content trimmed_import_body acc =
      Returns (fold (\<lambda>mt a. a\<lparr> imports_f := push (returned_val (trim_val (cap 1 mt))) (imports_f a) \<rparr>)
                 (all_matches regex content) acc)"
  proof (rule scan_fold [OF pos])
    fix mt a
    assume "mt \<in> set (all_matches regex content)"
    from ret [OF this] obtain v where "trim_val (cap 1 mt) = Returns v" by blast
    then show "trimmed_import_body mt a =
        Returns (a\<lparr> imports_f := push (returned_val (trim_val (cap 1 mt))) (imports_f a) \<rparr>)"
      by (simp add: trimmed_import_body_def returned_val_def)
  qed
  then show "scan regex content trimmed_import_body acc =
     Returns (acc\<lparr> imports_f := imports_f acc @
        map (\<lambda>mt. returned_val (trim_val (cap 1 mt))) (all_matches regex content) \<rparr>)"
    by (simp only: fold_push_field)
qed

lemma go_imported_returns: "\<exists>vs. go_imported mt = Returns vs"
  by (cases "cap 1 mt") (simp_all add: go_imported_def)

lemma go_import_scan:
  "scan go_importRegex content go_import_body acc =
     Returns (acc\<lparr> imports_f := imports_f acc @
        concat (map (\<lambda>mt. returned (go_imported mt)) (all_matches go_importRegex content)) \<rparr>)"
proof -
  have "scan go_importRegex content go_import_body acc =
      Returns (fold (\<lambda>mt a. a\<lparr> imports_f := imports_f a @ returned (go_imported mt) \<rparr>)
                 (all_matches go_importRegex content) acc)"
  proof (rule scan_fold)
    show "0 < min_len go_importRegex" by (rule regexes_consume)
    fix mt a
    obtain vs where "go_imported mt = Returns vs" using go_imported_returns by blast
    then show "go_import_body mt a = Returns (a\<lparr> imports_f := imports_f a @ returned (go_imported mt) \<rparr>)"
      by (simp add: go_import_body_def returned_def)
  qed
  then show ?thesis by (simp only: fold_append_imports)
qed

lemma extractJavaMetadata_is:
  "extractJavaMetadata content =
     Returns (no_fragment
       \<lparr> imports_m := Some (map (\<lambda>mt. returned_val (trim_val (cap 1 mt)))
                               (all_matches java_importRegex content)),
         classes_m := Some (map (cap 1) (all_matches java_classRegex content)),
         interfaces_m := Some (map (cap 1) (all_matches java_interfaceRegex content)),
         functions_m := Some (map (cap 1)
            (filter (\<lambda>mt. cap 1 mt \<noteq> Str ''class'' \<and> cap 1 mt \<noteq> Str ''interface'')
                    (all_matches java_methodRegex content))) \<rparr>)"
proof -
  have imp: "scan java_importRegex content trimmed_import_body acc =
     Returns (acc\<lparr> imports_f := imports_f acc @
        map (\<lambda>mt. returned_val (trim_val (cap 1 mt))) (all_matches java_importRegex content) \<rparr>)" for acc
    by (rule trimmed_import_scan(1)) (simp add: regexes_consume, rule py_groups)
  show ?thesis
  by (simp add: extractJavaMetadata_def imp push_scan method_scan
        regexes_consume nothing_found_def)
qed

lemma extractCSharpMetadata_is:
  "extractCSharpMetadata content =
     Returns (no_fragment
       \<lparr> imports_m := Some (map (\<lambda>mt. returned_val (trim_val (cap 1 mt)))
                               (all_matches cs_usingRegex content)),
         classes_m := Some (map (cap 1) (all_matches cs_classRegex content)),
         interfaces_m := Some (map (cap 1) (all_matches cs_interfaceRegex content)),
         functions_m := Some (map (cap 1)
            (filter (\<lambda>mt. cap 1 mt \<noteq> Str ''class'' \<and> cap 1 mt \<noteq> Str ''interface'')
                    (all_matches cs_methodRegex content))) \<rparr>)"
proof -
  have imp: "scan cs_usingRegex content trimmed_import_body acc =
     Returns (acc\<lparr> imports_f := imports_f acc @
        map (\<lambda>mt. returned_val (trim_val (cap 1 mt))) (all_matches cs_usingRegex content) \<rparr>)" for acc
    by (rule trimmed_import_scan(1)) (simp add: regexes_consume, rule py_groups)
  show ?thesis
  by (simp add: extractCSharpMetadata_def imp push_scan method_scan
        regexes_consume nothing_found_def)
qed

lemma extractCMetadata_is:
  "extractCMetadata content =
     Returns (no_fragment
       \<lparr> imports_m := Some (map (cap 1) (all_matches c_includeRegex content)),
         functions_m := Some (map (cap 1)
            (filter (\<lambda>mt. cap 1 mt \<noteq> Str ''if'' \<and> cap 1 mt \<noteq> Str ''while'' \<and> cap 1 mt \<noteq> Str ''for'')
                    (all_matches c_funcRegex content))),
         constants_m := Some (map (cap 1) (all_matches c_defineRegex content)) \<rparr>)"
  by (simp add: extractCMetadata_def push_scan method_scan regexes_consume nothing_found_def)

lemma extractGoMetadata_is:
  "extractGoMetadata content =
     Returns (no_fragment
       \<lparr> imports_m := Some (concat (map (\<lambda>mt. returned (go_imported mt))
                                       (all_matches go_importRegex content))),
         functions_m := Some (map (cap 1) (all_matches go_funcRegex content)),
         constants_m := Some (map (cap 1) (all_matches go_constRegex content)) \<rparr>)"
  by (simp add: extractGoMetadata_def go_import_scan push_scan regexes_consume nothing_found_def)

lemma extractRustMetadata_is:
  "extractRustMetadata content =
     Returns (no_fragment
       \<lparr> imports_m := Some (map (\<lambda>mt. returned_val (trim_val (cap 1 mt)))
                               (all_matches rust_useRegex content)),
         functions_m := Some (map (cap 1) (all_matches rust_funcRegex content)),
         constants_m := Some (map (cap 1) (all_matches rust_constRegex content)) \<rparr>)"
proof -
  have imp: "scan rust_useRegex content trimmed_import_body acc =
     Returns (acc\<lparr> imports_f := imports_f acc @
        map (\<lambda>mt. returned_val (trim_val (cap 1 mt))) (all_matches rust_useRegex content) \<rparr>)" for acc
    by (rule trimmed_import_scan(1)) (simp add: regexes_consume, rule py_groups)
  show ?thesis
  by (simp add: extractRustMetadata_def imp push_scan
        regexes_consume nothing_found_def)
qed

subsection \<open>\<open>extractJavaScriptMetadata\<close>\<close>

lemma export_name_truthy:
  "truthy (cap 1 mt) \<Longrightarrow> truthy (export_name mt)"
  "truthy (cap 2 mt) \<Longrightarrow> truthy (export_name mt)"
  "truthy (cap 6 mt) \<Longrightarrow> truthy (export_name mt)"
  "truthy (cap 7 mt) \<Longrightarrow> truthy (export_name mt)"
  by (simp_all add: export_name_def or_else_def)

lemma fold_export:
  "fold (\<lambda>mt a.
      if truthy (export_name mt)
      then if truthy (cap 1 mt) then a\<lparr> functions_f := push (export_name mt) (functions_f a) \<rparr>
           else if truthy (cap 2 mt) then a\<lparr> classes_f := push (export_name mt) (classes_f a) \<rparr>
           else if truthy (cap 6 mt) then a\<lparr> interfaces_f := push (export_name mt) (interfaces_f a) \<rparr>
           else if truthy (cap 7 mt) then a\<lparr> types_f := push (export_name mt) (types_f a) \<rparr>
           else a\<lparr> exports_f := push (export_name mt) (exports_f a) \<rparr>
      else a) ms a
   = a\<lparr> functions_f := functions_f a @ map export_name (filter (\<lambda>mt. truthy (cap 1 mt)) ms),
        classes_f := classes_f a @ map export_name
           (filter (\<lambda>mt. \<not> truthy (cap 1 mt) \<and> truthy (cap 2 mt)) ms),
        interfaces_f := interfaces_f a @ map export_name
           (filter (\<lambda>mt. \<not> truthy (cap 1 mt) \<and> \<not> truthy (cap 2 mt) \<and> truthy (cap 6 mt)) ms),
        types_f := types_f a @ map export_name
           (filter (\<lambda>mt. \<not> truthy (cap 1 mt) \<and> \<not> truthy (cap 2 mt) \<and> \<not> truthy (cap 6 mt)
                         \<and> truthy (cap 7 mt)) ms),
        exports_f := exports_f a @ map export_name
           (filter (\<lambda>mt. truthy (export_name mt) \<and> \<not> truthy (cap 1 mt) \<and> \<not> truthy (cap 2 mt)
                         \<and> \<not> truthy (cap 6 mt) \<and> \<not> truthy (cap 7 mt)) ms) \<rparr>"
proof (induction ms arbitrary: a)
  case Nil
  show ?case by simp
next
  case (Cons mt ms)
  show ?case
    by (simp only: fold_simps Cons.IH o_apply) (simp add: push_def export_name_truthy)
qed

lemma export_scan:
  "scan js_exportRegex content export_body a =
     Returns (a\<lparr> functions_f := functions_f a @ map export_name
           (filter (\<lambda>mt. truthy (cap 1 mt)) (all_matches js_exportRegex content)),
        classes_f := classes_f a @ map export_name
           (filter (\<lambda>mt. \<not> truthy (cap 1 mt) \<and> truthy (cap 2 mt)) (all_matches js_exportRegex content)),
        interfaces_f := interfaces_f a @ map export_name
           (filter (\<lambda>mt. \<not> truthy (cap 1 mt) \<and> \<not> truthy (cap 2 mt) \<and> truthy (cap 6 mt))
              (all_matches js_exportRegex content)),
        types_f := types_f a @ map export_name
           (filter (\<lambda>mt. \<not> truthy (cap 1 mt) \<and> \<not> truthy (cap 2 mt) \<and> \<not> truthy (cap 6 mt)
                         \<and> truthy (cap 7 mt)) (all_matches js_exportRegex content)),
        exports_f := exports_f a @ map export_name
           (filter (\<lambda>mt. truthy (export_name mt) \<and> \<not> truthy (cap 1 mt) \<and> \<not> truthy (cap 2 mt)
                         \<and> \<not> truthy (cap 6 mt) \<and> \<not> truthy (cap 7 mt))
              (all_matches js_exportRegex content)) \<rparr>)"
proof -
  have "scan js_exportRegex content export_body a =
     Returns (fold (\<lambda>mt a.
      if truthy (export_name mt)
      then if truthy (cap 1 mt) then a\<lparr> functions_f := push (export_name mt) (functions_f a) \<rparr>
           else if truthy (cap 2 mt) then a\<lparr> classes_f := push (export_name mt) (classes_f a) \<rparr>
           else if truthy (cap 6 mt) then a\<lparr> interfaces_f := push (export_name mt) (interfaces_f a) \<rparr>
           else if truthy (cap 7 mt) then a\<lparr> types_f := push (export_name mt) (types_f a) \<rparr>
           else a\<lparr> exports_f := push (export_name mt) (exports_f a) \<rparr>
      else a) (all_matches js_exportRegex content) a)"
    by (rule scan_fold) (simp_all only: regexes_consume export_body_def Let_def)
  then show ?thesis by (simp only: fold_export)
qed

lemma statement_scans:
  "in_turn (js_statement_scans content) nothing_found =
     Returns
       \<lparr> imports_f = map (cap 1) (all_matches js_importRegex content)
                     @ map (cap 1) (all_matches js_requireRegex content),
         exports_f = map export_name
           (filter (\<lambda>mt. truthy (export_name mt) \<and> \<not> truthy (cap 1 mt) \<and> \<not> truthy (cap 2 mt)
                         \<and> \<not> truthy (cap 6 mt) \<and> \<not> truthy (cap 7 mt))
              (all_matches js_exportRegex content)),
         functions_f = map export_name
           (filter (\<lambda>mt. truthy (cap 1 mt)) (all_matches js_exportRegex content)),
         classes_f = map export_name
           (filter (\<lambda>mt. \<not> truthy (cap 1 mt) \<and> truthy (cap 2 mt)) (all_matches js_exportRegex content)),
         interfaces_f = map export_name
           (filter (\<lambda>mt. \<not> truthy (cap 1 mt) \<and> \<not> truthy (cap 2 mt) \<and> truthy (cap 6 mt))
              (all_matches js_exportRegex content)),
         constants_f = [],
         types_f = map export_name
           (filter (\<lambda>mt. \<not> truthy (cap 1 mt) \<and> \<not> truthy (cap 2 mt) \<and> \<not> truthy (cap 6 mt)
                         \<and> truthy (cap 7 mt)) (all_matches js_exportRegex content)) \<rparr>"
  by (simp add: js_statement_scans_def push_scan regexes_consume export_scan nothing_found_def)

lemma in_turn_append:
  "in_turn (fs @ gs) acc = and_then (in_turn fs acc) (in_turn gs)"
proof (induction fs arbitrary: acc)
  case Nil
  show ?case by simp
next
  case (Cons f fs)
  show ?case by (cases "f acc") (simp_all add: Cons.IH)
qed

lemma declaration_scans:
  "in_turn (js_declaration_scans content) a =
     Returns (a
       \<lparr> functions_f := fold (\<lambda>mt. push_new (cap 1 mt))
            (all_matches js_funcRegex content @ all_matches js_arrowFuncRegex content) (functions_f a),
         classes_f := fold (\<lambda>mt. push_new (cap 1 mt)) (all_matches js_classRegex content) (classes_f a),
         interfaces_f := fold (\<lambda>mt. push_new (cap 1 mt)) (all_matches js_interfaceRegex content)
            (interfaces_f a),
         types_f := fold (\<lambda>mt. push_new (cap 1 mt)) (all_matches js_typeRegex content) (types_f a),
         constants_f := fold (\<lambda>mt. push_new (cap 1 mt)) (all_matches js_constRegex content)
            (constants_f a) \<rparr>)"
  by (simp add: js_declaration_scans_def push_new_scan regexes_consume)

lemma extractJavaScriptMetadata_is:
  "\<exists>a. in_turn (js_statement_scans content) nothing_found = Returns a
     \<and> extractJavaScriptMetadata content =
         Returns (no_fragment
           \<lparr> imports_m := Some (imports_f a), exports_m := Some (exports_f a),
             functions_m := Some (fold (\<lambda>mt. push_new (cap 1 mt))
                (all_matches js_funcRegex content @ all_matches js_arrowFuncRegex content)
                (functions_f a)),
             classes_m := Some (fold (\<lambda>mt. push_new (cap 1 mt)) (all_matches js_classRegex content)
                (classes_f a)),
             interfaces_m := Some (fold (\<lambda>mt. push_new (cap 1 mt))
                (all_matches js_interfaceRegex content) (interfaces_f a)),
             constants_m := Some (fold (\<lambda>mt. push_new (cap 1 mt)) (all_matches js_constRegex content)
                (constants_f a)),
             types_m := Some (fold (\<lambda>mt. push_new (cap 1 mt)) (all_matches js_typeRegex content)
                (types_f a)) \<rparr>)"
proof -
  obtain a where a: "in_turn (js_statement_scans content) nothing_found = Returns a"
    using statement_scans by blast
  show ?thesis
    by (rule exI [of _ a])
       (simp add: a extractJavaScriptMetadata_def in_turn_append declaration_scans)
qed

lemma list_all2_returned_val:
  "\<forall>mt \<in> set ms. \<exists>v. f mt = Returns v \<Longrightarrow>
     list_all2 (\<lambda>mt v. f mt = Returns v) ms (map (\<lambda>mt. returned_val (f mt)) ms)"
  by (induction ms) (auto simp add: returned_val_def)

lemma list_all2_returned:
  "\<forall>mt \<in> set ms. \<exists>v. f mt = Returns v \<Longrightarrow>
     list_all2 (\<lambda>mt v. f mt = Returns v) ms (map (\<lambda>mt. returned (f mt)) ms)"
  by (induction ms) (auto simp add: returned_def)

lemma trimmed_imports:
  "1 \<in> set (always regex) \<Longrightarrow>
     list_all2 (\<lambda>mt v. trim_val (cap 1 mt) = Returns v) (all_matches regex content)
       (map (\<lambda>mt. returned_val (trim_val (cap 1 mt))) (all_matches regex content))"
proof (rule list_all2_returned_val, rule ballI)
  fix mt
  assume "1 \<in> set (always regex)" and "mt \<in> set (all_matches regex content)"
  from matches_from_groups [OF this(2) [unfolded all_matches_def] this(1)]
  obtain t where "cap 1 mt = Str t" by blast
  then show "\<exists>v. trim_val (cap 1 mt) = Returns v" by simp
qed

subsection \<open>A definition that occurs twice\<close>

lemma python_counterexample:
  "extractPythonMetadata (''def f():'' @ [CHR 0x0A] @ ''def f():'') =
     Returns (no_fragment \<lparr> imports_m := Some [], functions_m := Some [Str ''f'', Str ''f''],
                classes_m := Some [], constants_m := Some [] \<rparr>)"
  by (simp add: extractPythonMetadata_def py_import_body_def py_imported_def regex_defs
        scan_def while_exec.simps search.simps step_if_def nothing_found_def
        is_space_def is_word_def cap_def push_def no_fragment_def Let_def)

lemma js_counterexample:
  "extractJavaScriptMetadata
     (''export function f(a: number);'' @ [CHR 0x0A] @ ''export function f(a: any) {}'') =
     Returns (no_fragment \<lparr> imports_m := Some [], exports_m := Some [],
                functions_m := Some [Str ''f'', Str ''f''],
                classes_m := Some [], interfaces_m := Some [], constants_m := Some [],
                types_m := Some [] \<rparr>)"
  by (simp add: extractJavaScriptMetadata_def js_statement_scans_def js_declaration_scans_def
        export_body_def export_name_def or_else_def regex_defs
        scan_def while_exec.simps search.simps step_if_def nothing_found_def
        is_space_def is_word_def cap_def push_def push_new_def no_fragment_def Let_def)

subsection \<open>Which scans check for a name that is already recorded\<close>

lemma javascript_declarations:
  "\<exists>a fr new_functions new_classes new_interfaces new_types constants.
      in_turn (js_statement_scans content) nothing_found = Returns a
    \<and> extractJavaScriptMetadata content = Returns fr
    \<and> imports_f a = map (cap 1) (all_matches js_importRegex content)
                      @ map (cap 1) (all_matches js_requireRegex content)
    \<and> functions_f a = map export_name
          (filter (\<lambda>mt. truthy (cap 1 mt)) (all_matches js_exportRegex content))
    \<and> classes_f a = map export_name
          (filter (\<lambda>mt. \<not> truthy (cap 1 mt) \<and> truthy (cap 2 mt))
             (all_matches js_exportRegex content))
    \<and> interfaces_f a = map export_name
          (filter (\<lambda>mt. \<not> truthy (cap 1 mt) \<and> \<not> truthy (cap 2 mt) \<and> truthy (cap 6 mt))
             (all_matches js_exportRegex content))
    \<and> types_f a = map export_name
          (filter (\<lambda>mt. \<not> truthy (cap 1 mt) \<and> \<not> truthy (cap 2 mt) \<and> \<not> truthy (cap 6 mt)
                        \<and> truthy (cap 7 mt))
             (all_matches js_exportRegex content))
    \<and> imports_m fr = Some (imports_f a)
    \<and> functions_m fr = Some (functions_f a @ new_functions) \<and> distinct new_functions
    \<and> set new_functions =
          cap 1 ` set (all_matches js_funcRegex content @ all_matches js_arrowFuncRegex content)
            - set (functions_f a)
    \<and> classes_m fr = Some (classes_f a @ new_classes) \<and> distinct new_classes
    \<and> set new_classes = cap 1 ` set (all_matches js_classRegex content) - set (classes_f a)
    \<and> interfaces_m fr = Some (interfaces_f a @ new_interfaces) \<and> distinct new_interfaces
    \<and> set new_interfaces =
          cap 1 ` set (all_matches js_interfaceRegex content) - set (interfaces_f a)
    \<and> types_m fr = Some (types_f a @ new_types) \<and> distinct new_types
    \<and> set new_types = cap 1 ` set (all_matches js_typeRegex content) - set (types_f a)
    \<and> constants_m fr = Some constants \<and> distinct constants
    \<and> set constants = cap 1 ` set (all_matches js_constRegex content)"
proof -
  obtain a where a: "in_turn (js_statement_scans content) nothing_found = Returns a"
    and fr: "extractJavaScriptMetadata content =
         Returns (no_fragment
           \<lparr> imports_m := Some (imports_f a), exports_m := Some (exports_f a),
             functions_m := Some (fold (\<lambda>mt. push_new (cap 1 mt))
                (all_matches js_funcRegex content @ all_matches js_arrowFuncRegex content)
                (functions_f a)),
             classes_m := Some (fold (\<lambda>mt. push_new (cap 1 mt)) (all_matches js_classRegex content)
                (classes_f a)),
             interfaces_m := Some (fold (\<lambda>mt. push_new (cap 1 mt))
                (all_matches js_interfaceRegex content) (interfaces_f a)),
             constants_m := Some (fold (\<lambda>mt. push_new (cap 1 mt)) (all_matches js_constRegex content)
                (constants_f a)),
             types_m := Some (fold (\<lambda>mt. push_new (cap 1 mt)) (all_matches js_typeRegex content)
                (types_f a)) \<rparr>)"
    using extractJavaScriptMetadata_is [of content] by blast
  from a have fields:
    "imports_f a = map (cap 1) (all_matches js_importRegex content)
                      @ map (cap 1) (all_matches js_requireRegex content)"
    "functions_f a = map export_name
          (filter (\<lambda>mt. truthy (cap 1 mt)) (all_matches js_exportRegex content))"
    "classes_f a = map export_name
          (filter (\<lambda>mt. \<not> truthy (cap 1 mt) \<and> truthy (cap 2 mt))
             (all_matches js_exportRegex content))"
    "interfaces_f a = map export_name
          (filter (\<lambda>mt. \<not> truthy (cap 1 mt) \<and> \<not> truthy (cap 2 mt) \<and> truthy (cap 6 mt))
             (all_matches js_exportRegex content))"
    "types_f a = map export_name
          (filter (\<lambda>mt. \<not> truthy (cap 1 mt) \<and> \<not> truthy (cap 2 mt) \<and> \<not> truthy (cap 6 mt)
                        \<and> truthy (cap 7 mt))
             (all_matches js_exportRegex content))"
    "constants_f a = []"
    by (auto simp add: statement_scans)
  obtain nf where nf: "fold (\<lambda>mt. push_new (cap 1 mt))
        (all_matches js_funcRegex content @ all_matches js_arrowFuncRegex content) (functions_f a)
        = functions_f a @ nf" "distinct nf"
      "set nf = cap 1 ` set (all_matches js_funcRegex content @ all_matches js_arrowFuncRegex content)
                  - set (functions_f a)"
    using fold_push_new [of "cap 1"
        "all_matches js_funcRegex content @ all_matches js_arrowFuncRegex content" "functions_f a"]
    by blast
  obtain nc where nc: "fold (\<lambda>mt. push_new (cap 1 mt)) (all_matches js_classRegex content)
        (classes_f a) = classes_f a @ nc" "distinct nc"
      "set nc = cap 1 ` set (all_matches js_classRegex content) - set (classes_f a)"
    using fold_push_new [of "cap 1" "all_matches js_classRegex content" "classes_f a"] by blast
  obtain ni where ni: "fold (\<lambda>mt. push_new (cap 1 mt)) (all_matches js_interfaceRegex content)
        (interfaces_f a) = interfaces_f a @ ni" "distinct ni"
      "set ni = cap 1 ` set (all_matches js_interfaceRegex content) - set (interfaces_f a)"
    using fold_push_new [of "cap 1" "all_matches js_interfaceRegex content" "interfaces_f a"]
    by blast
  obtain nt where nt: "fold (\<lambda>mt. push_new (cap 1 mt)) (all_matches js_typeRegex content)
        (types_f a) = types_f a @ nt" "distinct nt"
      "set nt = cap 1 ` set (all_matches js_typeRegex content) - set (types_f a)"
    using fold_push_new [of "cap 1" "all_matches js_typeRegex content" "types_f a"] by blast
  obtain cs where cs: "fold (\<lambda>mt. push_new (cap 1 mt)) (all_matches js_constRegex content) [] = cs"
      "distinct cs" "set cs = cap 1 ` set (all_matches js_constRegex content)"
    using fold_push_new [of "cap 1" "all_matches js_constRegex content" "[]"] by auto
  let ?fr = "no_fragment
           \<lparr> imports_m := Some (imports_f a), exports_m := Some (exports_f a),
             functions_m := Some (functions_f a @ nf),
             classes_m := Some (classes_f a @ nc),
             interfaces_m := Some (interfaces_f a @ ni),
             constants_m := Some cs,
             types_m := Some (types_f a @ nt) \<rparr>"
  have fr': "extractJavaScriptMetadata content = Returns ?fr"
    using fr by (simp only: nf(1) nc(1) ni(1) nt(1) cs(1) fields(6))
  show ?thesis
    apply (rule exI [of _ a])
    apply (rule exI [of _ ?fr])
    apply (rule exI [of _ nf])
    apply (rule exI [of _ nc])
    apply (rule exI [of _ ni])
    apply (rule exI [of _ nt])
    apply (rule exI [of _ cs])
    apply (intro conjI)
    apply (rule a)
    apply (rule fr')
    apply (rule fields(1))
    apply (rule fields(2))
    apply (rule fields(3))
    apply (rule fields(4))
    apply (rule fields(5))
    apply simp
    apply simp
    apply (rule nf(2))
    apply (rule nf(3))
    apply simp
    apply (rule nc(2))
    apply (rule nc(3))
    apply simp
    apply (rule ni(2))
    apply (rule ni(3))
    apply simp
    apply (rule nt(2))
    apply (rule nt(3))
    apply simp
    apply (rule cs(2))
    apply (rule cs(3))
    done
qed

lemma python_declarations:
  "(\<exists>imported.
      list_all2 (\<lambda>mt vs. py_imported mt = Returns vs) (all_matches py_importRegex content) imported
    \<and> extractPythonMetadata content =
        Returns (no_fragment
          \<lparr> imports_m := Some (concat imported),
            functions_m := Some (map (cap 1) (all_matches py_funcRegex content)),
            classes_m := Some (map (cap 1) (all_matches py_classRegex content)),
            constants_m := Some (map (cap 1) (all_matches py_constRegex content)) \<rparr>))"
  by (rule exI [of _ "map (\<lambda>mt. returned (py_imported mt)) (all_matches py_importRegex content)"],
      rule conjI, rule list_all2_returned [OF py_import_scan(2)], rule extractPythonMetadata_is)

lemma java_declarations:
  "(\<exists>imported.
      list_all2 (\<lambda>mt v. trim_val (cap 1 mt) = Returns v) (all_matches java_importRegex content) imported
    \<and> extractJavaMetadata content =
        Returns (no_fragment
          \<lparr> imports_m := Some imported,
            classes_m := Some (map (cap 1) (all_matches java_classRegex content)),
            interfaces_m := Some (map (cap 1) (all_matches java_interfaceRegex content)),
            functions_m := Some (map (cap 1)
              (filter (\<lambda>mt. cap 1 mt \<noteq> Str ''class'' \<and> cap 1 mt \<noteq> Str ''interface'')
                 (all_matches java_methodRegex content))) \<rparr>))"
  by (rule exI [of _ "map (\<lambda>mt. returned_val (trim_val (cap 1 mt))) (all_matches java_importRegex content)"],
      rule conjI, rule trimmed_imports [OF py_groups(2)], rule extractJavaMetadata_is)

lemma csharp_declarations:
  "(\<exists>imported.
      list_all2 (\<lambda>mt v. trim_val (cap 1 mt) = Returns v) (all_matches cs_usingRegex content) imported
    \<and> extractCSharpMetadata content =
        Returns (no_fragment
          \<lparr> imports_m := Some imported,
            classes_m := Some (map (cap 1) (all_matches cs_classRegex content)),
            interfaces_m := Some (map (cap 1) (all_matches cs_interfaceRegex content)),
            functions_m := Some (map (cap 1)
              (filter (\<lambda>mt. cap 1 mt \<noteq> Str ''class'' \<and> cap 1 mt \<noteq> Str ''interface'')
                 (all_matches cs_methodRegex content))) \<rparr>))"
  by (rule exI [of _ "map (\<lambda>mt. returned_val (trim_val (cap 1 mt))) (all_matches cs_usingRegex content)"],
      rule conjI, rule trimmed_imports [OF py_groups(3)], rule extractCSharpMetadata_is)

lemma go_declarations:
  "(\<exists>imported.
      list_all2 (\<lambda>mt vs. go_imported mt = Returns vs) (all_matches go_importRegex content) imported
    \<and> extractGoMetadata content =
        Returns (no_fragment
          \<lparr> imports_m := Some (concat imported),
            functions_m := Some (map (cap 1) (all_matches go_funcRegex content)),
            constants_m := Some (map (cap 1) (all_matches go_constRegex content)) \<rparr>))"
  by (rule exI [of _ "map (\<lambda>mt. returned (go_imported mt)) (all_matches go_importRegex content)"])
     (simp add: extractGoMetadata_is list_all2_returned go_imported_returns)

lemma rust_declarations:
  "(\<exists>imported.
      list_all2 (\<lambda>mt v. trim_val (cap 1 mt) = Returns v) (all_matches rust_useRegex content) imported
    \<and> extractRustMetadata content =
        Returns (no_fragment
          \<lparr> imports_m := Some imported,
            functions_m := Some (map (cap 1) (all_matches rust_funcRegex content)),
            constants_m := Some (map (cap 1) (all_matches rust_constRegex content)) \<rparr>))"
  by (rule exI [of _ "map (\<lambda>mt. returned_val (trim_val (cap 1 mt))) (all_matches rust_useRegex content)"],
      rule conjI, rule trimmed_imports [OF py_groups(4)], rule extractRustMetadata_is)

text \<open>
  Claim C4, as stated, fails: a Python file that defines \<open>f\<close> twice has \<open>f\<close> twice in
  \<open>functions\<close>, and so has a TypeScript file with two exported signatures of \<open>f\<close>.
\<close>

theorem C4_counterexample_repeated_definition_recorded_twice:
  "extractPythonMetadata (''def f():'' @ [CHR 0x0A] @ ''def f():'') =
     Returns (no_fragment \<lparr> imports_m := Some [], functions_m := Some [Str ''f'', Str ''f''],
                classes_m := Some [], constants_m := Some [] \<rparr>)
   \<and> extractJavaScriptMetadata
       (''export function f(a: number);'' @ [CHR 0x0A] @ ''export function f(a: any) {}'') =
     Returns (no_fragment \<lparr> imports_m := Some [], exports_m := Some [],
                functions_m := Some [Str ''f'', Str ''f''],
                classes_m := Some [], interfaces_m := Some [], constants_m := Some [],
                types_m := Some [] \<rparr>)"
  by (rule conjI) (rule python_counterexample, rule js_counterexample)

text \<open>
  Claim C4, amended. Only the declaration scans of the JavaScript/TypeScript extractor
  check \<open>includes\<close>: in \<open>functions\<close>, \<open>classes\<close>, \<open>interfaces\<close> and \<open>types\<close> they add,
  after what the export scan recorded (one entry for each export statement, repeated
  names included), the names of their matches that are not yet in the array, each once;
  \<open>constants\<close>, which only a declaration scan fills, has no duplicates. The extractors
  for Python, Java, C/C++, C#, Go and Rust record one entry for every match of a
  declaration pattern (the method and function scans leave out the keywords they test
  for), in order, repeated names included. Imports are recorded for every match, in
  order, in every extractor.
\<close>

theorem C4_only_javascript_declaration_scans_deduplicate:
  "(\<exists>a fr new_functions new_classes new_interfaces new_types constants.
      in_turn (js_statement_scans content) nothing_found = Returns a
    \<and> extractJavaScriptMetadata content = Returns fr
    \<and> imports_f a = map (cap 1) (all_matches js_importRegex content)
                      @ map (cap 1) (all_matches js_requireRegex content)
    \<and> functions_f a = map export_name
          (filter (\<lambda>mt. truthy (cap 1 mt)) (all_matches js_exportRegex content))
    \<and> classes_f a = map export_name
          (filter (\<lambda>mt. \<not> truthy (cap 1 mt) \<and> truthy (cap 2 mt))
             (all_matches js_exportRegex content))
    \<and> interfaces_f a = map export_name
          (filter (\<lambda>mt. \<not> truthy (cap 1 mt) \<and> \<not> truthy (cap 2 mt) \<and> truthy (cap 6 mt))
             (all_matches js_exportRegex content))
    \<and> types_f a = map export_name
          (filter (\<lambda>mt. \<not> truthy (cap 1 mt) \<and> \<not> truthy (cap 2 mt) \<and> \<not> truthy (cap 6 mt)
                        \<and> truthy (cap 7 mt))
             (all_matches js_exportRegex content))
    \<and> imports_m fr = Some (imports_f a)
    \<and> functions_m fr = Some (functions_f a @ new_functions) \<and> distinct new_functions
    \<and> set new_functions =
          cap 1 ` set (all_matches js_funcRegex content @ all_matches js_arrowFuncRegex content)
            - set (functions_f a)
    \<and> classes_m fr = Some (classes_f a @ new_classes) \<and> distinct new_classes
    \<and> set new_classes = cap 1 ` set (all_matches js_classRegex content) - set (classes_f a)
    \<and> interfaces_m fr = Some (interfaces_f a @ new_interfaces) \<and> distinct new_interfaces
    \<and> set new_interfaces =
          cap 1 ` set (all_matches js_interfaceRegex content) - set (interfaces_f a)
    \<and> types_m fr = Some (types_f a @ new_types) \<and> distinct new_types
    \<and> set new_types = cap 1 ` set (all_matches js_typeRegex content) - set (types_f a)
    \<and> constants_m fr = Some constants \<and> distinct constants
    \<and> set constants = cap 1 ` set (all_matches js_constRegex content))
  \<and> (\<exists>imported.
      list_all2 (\<lambda>mt vs. py_imported mt = Returns vs) (all_matches py_importRegex content) imported
    \<and> extractPythonMetadata content =
        Returns (no_fragment
          \<lparr> imports_m := Some (concat imported),
            functions_m := Some (map (cap 1) (all_matches py_funcRegex content)),
            classes_m := Some (map (cap 1) (all_matches py_classRegex content)),
            constants_m := Some (map (cap 1) (all_matches py_constRegex content)) \<rparr>))
  \<and> (\<exists>imported.
      list_all2 (\<lambda>mt v. trim_val (cap 1 mt) = Returns v) (all_matches java_importRegex content) imported
    \<and> extractJavaMetadata content =
        Returns (no_fragment
          \<lparr> imports_m := Some imported,
            classes_m := Some (map (cap 1) (all_matches java_classRegex content)),
            interfaces_m := Some (map (cap 1) (all_matches java_interfaceRegex content)),
            functions_m := Some (map (cap 1)
              (filter (\<lambda>mt. cap 1 mt \<noteq> Str ''class'' \<and> cap 1 mt \<noteq> Str ''interface'')
                 (all_matches java_methodRegex content))) \<rparr>))
  \<and> extractCMetadata content =
        Returns (no_fragment
          \<lparr> imports_m := Some (map (cap 1) (all_matches c_includeRegex content)),
            functions_m := Some (map (cap 1)
              (filter (\<lambda>mt. cap 1 mt \<noteq> Str ''if'' \<and> cap 1 mt \<noteq> Str ''while''
                            \<and> cap 1 mt \<noteq> Str ''for'')
                 (all_matches c_funcRegex content))),
            constants_m := Some (map (cap 1) (all_matches c_defineRegex content)) \<rparr>)
  \<and> (\<exists>imported.
      list_all2 (\<lambda>mt v. trim_val (cap 1 mt) = Returns v) (all_matches cs_usingRegex content) imported
    \<and> extractCSharpMetadata content =
        Returns (no_fragment
          \<lparr> imports_m := Some imported,
            classes_m := Some (map (cap 1) (all_matches cs_classRegex content)),
            interfaces_m := Some (map (cap 1) (all_matches cs_interfaceRegex content)),
            functions_m := Some (map (cap 1)
              (filter (\<lambda>mt. cap 1 mt \<noteq> Str ''class'' \<and> cap 1 mt \<noteq> Str ''interface'')
                 (all_matches cs_methodRegex content))) \<rparr>))
  \<and> (\<exists>imported.
      list_all2 (\<lambda>mt vs. go_imported mt = Returns vs) (all_matches go_importRegex content) imported
    \<and> extractGoMetadata content =
        Returns (no_fragment
          \<lparr> imports_m := Some (concat imported),
            functions_m := Some (map (cap 1) (all_matches go_funcRegex content)),
            constants_m := Some (map (cap 1) (all_matches go_constRegex content)) \<rparr>))
  \<and> (\<exists>imported.
      list_all2 (\<lambda>mt v. trim_val (cap 1 mt) = Returns v) (all_matches rust_useRegex content) imported
    \<and> extractRustMetadata content =
        Returns (no_fragment
          \<lparr> imports_m := Some imported,
            functions_m := Some (map (cap 1) (all_matches rust_funcRegex content)),
            constants_m := Some (map (cap 1) (all_matches rust_constRegex content)) \<rparr>))"
  apply (intro conjI)
  apply (rule javascript_declarations)
  apply (rule python_declarations)
  apply (rule java_declarations)
  apply (rule extractCMetadata_is)
  apply (rule csharp_declarations)
  apply (rule go_declarations)
  apply (rule rust_declarations)
  done

end
